theory Spec2Isabelle
  imports Main "HOL-Library.Word" "HOL-Library.Char_ord" "HOL-Library.List_Lexorder"
    "HOL-Library.AList"
begin

section \<open>The private tree of wnfs-go (private/private.go)\<close>

text \<open>
  A shallow embedding of the private (encrypted) tree layer: directory nodes (\<open>Tree\<close>),
  byte-stream files (\<open>File\<close>) and structured files (\<open>DataFile\<close>), their link tables,
  headers, and the \<open>Put\<close>, \<open>Get\<close>, \<open>Rm\<close>, \<open>Mkdir\<close>, \<open>Update\<close>, \<open>ReadDir\<close>
  and \<open>history\<close> operations.

  Go pointers to nodes become records that the operations return updated; the shared
  \<open>Store\<close> (block store, HAMT index, ratchet store) together with the operating system's
  random source and clock is one record that every operation takes and returns; an error
  return or a run-time panic is a value of type \<open>error\<close>.
\<close>

subsection \<open>Bytes, keys, names\<close>

type_synonym byte = "8 word"
type_synonym bytes = "byte list"

text \<open>\<open>type Key [32]byte\<close>, \<open>type INumber [32]byte\<close>; \<open>Name\<close> is a string type.\<close>

type_synonym Key = bytes
type_synonym INumber = bytes
type_synonym Name = string
type_synonym BareNamefilter = bytes
type_synonym KeyedNamefilter = bytes

definition EmptyKey :: Key where
  "EmptyKey = replicate 32 0"

definition Key_IsEmpty :: "Key \<Rightarrow> bool" where
  "Key_IsEmpty k = (k = EmptyKey)"

subsection \<open>Errors\<close>

text \<open>
  \<open>ErrNotFound\<close> is \<open>base.ErrNotFound\<close>; \<open>Err msg\<close> is an error made by \<open>errors.New\<close>
  or \<open>fmt.Errorf\<close> without a wrapped cause, or one returned by a collaborator;
  \<open>Wrap msg e\<close> is \<open>fmt.Errorf("msg: %w", e)\<close>; \<open>Panic msg\<close> is a Go run-time panic
  (nil pointer dereference, assignment to an entry of a nil map).
\<close>

datatype error = ErrNotFound | Err string | Wrap string error | Panic string

subsection \<open>Node types and header info\<close>

text \<open>\<open>base.NodeType\<close>; \<open>NTOther\<close> stands for every value that \<open>LoadNode\<close> does not recognise.\<close>

datatype NodeType = NTFile | NTDataFile | NTDir | NTOther

text \<open>
  \<open>type HeaderInfo struct\<close>. \<open>Mode\<close> is a \<open>uint32\<close>, the times and the size are
  \<open>int64\<close> (read with \<open>sint\<close>).
\<close>

record HeaderInfo =
  WNFS :: string
  Type :: NodeType
  Mode :: "32 word"
  Ctime :: "64 word"
  Mtime :: "64 word"
  Size :: "64 word"
  INumber :: INumber
  BareNamefilter :: BareNamefilter
  Ratchet :: string

text \<open>\<open>func (hi HeaderInfo) Copy() HeaderInfo\<close>: a field-by-field copy.\<close>

definition HeaderInfo_Copy :: "HeaderInfo \<Rightarrow> HeaderInfo" where
  "HeaderInfo_Copy hi =
     \<lparr> WNFS = WNFS hi, Type = Type hi, Mode = Mode hi, Ctime = Ctime hi, Mtime = Mtime hi,
       Size = Size hi, INumber = INumber hi, BareNamefilter = BareNamefilter hi,
       Ratchet = Ratchet hi \<rparr>"

subsection \<open>Sealed data, content identifiers, blocks, links\<close>

text \<open>
  The AEAD cipher (\<open>newCipher\<close>, another file of the package) is idealised: a sealed box
  records the key and the nonce it was sealed with and the plaintext, and opens under that
  key only. In the source the box is the byte string \<open>nonce || ciphertext\<close>. Making a
  cipher from a 32-byte key, drawing a nonce and sealing do not fail.
\<close>

datatype 'a sealed = Sealed Key bytes 'a

fun aead_Open :: "Key \<Rightarrow> 'a sealed \<Rightarrow> error + 'a" where
  "aead_Open key (Sealed k nonce plaintext) =
     (if key = k then Inr plaintext else Inl (Err ''cipher: message authentication failed''))"

text \<open>
  Content addressing is idealised in the same way: the CID of a block is the block itself
  under the constructor \<open>CidOf\<close> (a collision-free multihash), and \<open>CidUndef\<close> is
  \<open>cid.Undef\<close>, the zero value of \<open>cid.Cid\<close>.

  A block is either a raw block (an encrypted link table written by
  \<open>marshalEncryptedBlock\<close>, or encrypted file content written by \<open>PutEncryptedFile\<close>) or
  a CBOR map with the optional entries \<open>info\<close>, \<open>content\<close>, \<open>metadata\<close> and
  \<open>value\<close> (a node envelope written by \<open>encryptHeaderBlock\<close> or
  \<open>DataFile.encodeBlock\<close>). The CBOR coding of header infos, link tables and CIDs is taken
  to be lossless, so the model keeps the structured value where the source keeps its bytes.
  A link table is a Go map, here an association list from names to links; \<open>None\<close> is the
  nil map.

  \<open>PrivateLink\<close> embeds \<open>base.Link\<close> (name, size, CID, is-file flag) and adds the key and
  the pointer (private name) of the child.
\<close>

datatype Cid = CidUndef | CidOf Block
and Block =
    LinksBlock "(string \<times> PrivateLink) list option sealed"
  | ContentBlock "bytes sealed"
  | Envelope (env_info: "HeaderInfo sealed option") (env_content: "Cid option")
      (env_metadata: "Cid option") (env_value: "bytes sealed option")
and PrivateLink =
    PrivateLink (Link_Name: string) (Link_Size: "64 word") (Link_Cid: Cid) (Link_IsFile: bool)
      (Link_Key: Key) (Link_Pointer: Name)

type_synonym PrivateLinks = "(string \<times> PrivateLink) list option"

definition Block_Cid :: "Block \<Rightarrow> Cid" where
  "Block_Cid blk = CidOf blk"

subsection \<open>Headers and nodes\<close>

text \<open>\<open>type Header struct\<close>; \<open>Value\<close> (an \<open>interface{}\<close>) is \<open>None\<close> when nil.\<close>

record 'v Header =
  Info :: HeaderInfo
  Metadata :: Cid
  ContentID :: Cid
  Value :: "'v option"

text \<open>
  \<open>type Tree struct\<close>, without the store handle \<open>fs\<close> (the store is passed to every
  operation). \<open>ratchet\<close> is a \<open>*ratchet.Spiral\<close>, \<open>None\<close> when nil; \<open>links\<close> is
  \<open>None\<close> until the link table has been loaded.
\<close>

record ('r, 'v) Tree =
  t_name :: string
  t_cid :: Cid
  t_header :: "'v Header"
  t_ratchet :: "'r option"
  t_links :: PrivateLinks

text \<open>\<open>type File struct\<close>; \<open>content\<close> is the byte stream to write, \<open>None\<close> when nil.\<close>

record ('r, 'v) File =
  f_name :: string
  f_cid :: Cid
  f_header :: "'v Header"
  f_ratchet :: "'r option"
  f_content :: "bytes option"

text \<open>
  \<open>type DataFile struct\<close>; \<open>Metadata\<close> is a \<open>*cid.Cid\<close>; \<open>jsonContent\<close>, a cache
  for \<open>Read\<close>, is left out.
\<close>

record ('r, 'v) DataFile =
  d_name :: string
  d_cid :: Cid
  d_ratchet :: "'r option"
  d_header :: "'v Header"
  d_Metadata :: "Cid option"
  d_content :: "'v option"

text \<open>The interface \<open>privateNode\<close>, implemented by the three node types.\<close>

datatype ('r, 'v) privateNode =
    NodeTree "('r, 'v) Tree"
  | NodeFile "('r, 'v) File"
  | NodeDataFile "('r, 'v) DataFile"

text \<open>
  An \<open>fs.File\<close> handed to \<open>Update\<close>: either it implements \<open>base.LinkedDataFile\<close>,
  and \<open>Data()\<close> returns a value or an error, or it is a plain byte stream.
\<close>

datatype 'v fsFile = LinkedDataFile "error + 'v option" | PlainFile bytes

text \<open>\<open>type PutResult struct\<close>, with the fields of the embedded \<open>public.PutResult\<close>.\<close>

record PutResult =
  res_Cid :: Cid
  res_Size :: "64 word"
  res_Type :: NodeType
  res_Userland :: Cid
  res_Key :: Key
  res_Pointer :: Name

subsection \<open>Accessors\<close>


text \<open>
  \<open>func (pt *Tree) Mode() fs.FileMode { return fs.FileMode(pt.header.Info.Ctime) }\<close>:
  the conversion of an \<open>int64\<close> to \<open>fs.FileMode\<close> (a \<open>uint32\<close>) keeps the low 32 bits.
\<close>

definition Tree_Mode :: "('r, 'v) Tree \<Rightarrow> 32 word" where
  "Tree_Mode pt = ucast (Ctime (Info (t_header pt)))"

definition Tree_Type :: "('r, 'v) Tree \<Rightarrow> NodeType" where
  "Tree_Type pt = Type (Info (t_header pt))"

definition Tree_INumber :: "('r, 'v) Tree \<Rightarrow> INumber" where
  "Tree_INumber pt = INumber (Info (t_header pt))"

definition Tree_BareNamefilter :: "('r, 'v) Tree \<Rightarrow> BareNamefilter" where
  "Tree_BareNamefilter pt = BareNamefilter (Info (t_header pt))"

text \<open>\<open>func (pf *File) Mode() fs.FileMode { return fs.FileMode(pf.header.Info.Mode) }\<close>\<close>

definition File_Mode :: "('r, 'v) File \<Rightarrow> 32 word" where
  "File_Mode pf = Mode (Info (f_header pf))"

definition File_Size :: "('r, 'v) File \<Rightarrow> 64 word" where
  "File_Size pf = Size (Info (f_header pf))"

definition File_Type :: "('r, 'v) File \<Rightarrow> NodeType" where
  "File_Type pf = Type (Info (f_header pf))"

definition File_INumber :: "('r, 'v) File \<Rightarrow> INumber" where
  "File_INumber pf = INumber (Info (f_header pf))"

definition File_BareNamefilter :: "('r, 'v) File \<Rightarrow> BareNamefilter" where
  "File_BareNamefilter pf = BareNamefilter (Info (f_header pf))"

text \<open>\<open>func (df *DataFile) Mode() fs.FileMode { return fs.FileMode(df.header.Info.Mode) }\<close>\<close>

definition DataFile_Mode :: "('r, 'v) DataFile \<Rightarrow> 32 word" where
  "DataFile_Mode df = Mode (Info (d_header df))"

definition DataFile_Size :: "('r, 'v) DataFile \<Rightarrow> 64 word" where
  "DataFile_Size df = Size (Info (d_header df))"

definition DataFile_Type :: "('r, 'v) DataFile \<Rightarrow> NodeType" where
  "DataFile_Type df = Type (Info (d_header df))"

definition DataFile_INumber :: "('r, 'v) DataFile \<Rightarrow> INumber" where
  "DataFile_INumber df = INumber (Info (d_header df))"

definition DataFile_BareNamefilter :: "('r, 'v) DataFile \<Rightarrow> BareNamefilter" where
  "DataFile_BareNamefilter df = BareNamefilter (Info (d_header df))"

subsection \<open>Collaborators taken as parameters\<close>

text \<open>
  The packages \<open>ratchet\<close> and \<open>base\<close>, the name filter functions of this package
  (\<open>NewBareNamefilter\<close>, \<open>AddKey\<close>, \<open>ToName\<close>, \<open>IdentityBareNamefilter\<close>) and the CBOR
  coding of the user's structured values are not part of the file modelled here. Every
  operation takes them as one record of functions. \<open>'r\<close> is the state of a spiral ratchet,
  \<open>'v\<close> the type of structured values.

  \<open>NewSpiral\<close> builds a ratchet from the random bytes it draws; \<open>Spiral_Inc\<close> is
  \<open>Inc\<close>, a function of the state of the ratchet; \<open>Spiral_Previous recent old max\<close> is
  \<open>recent.Previous(old, max)\<close>; \<open>NodeType_zero\<close> is the zero value of
  \<open>base.NodeType\<close>. \<open>maxAlloc\<close> is the largest number of bytes that the Go runtime
  allocates in one piece (\<open>2^48\<close> on 64-bit Linux).
\<close>

record ('r, 'v) prims =
  NewSpiral :: "bytes \<Rightarrow> 'r"
  Spiral_Inc :: "'r \<Rightarrow> 'r"
  Spiral_Key :: "'r \<Rightarrow> Key"
  Spiral_Encode :: "'r \<Rightarrow> string"
  DecodeSpiral :: "string \<Rightarrow> error + 'r"
  Spiral_Previous :: "'r \<Rightarrow> 'r \<Rightarrow> int \<Rightarrow> error + 'r list"
  IdentityBareNamefilter :: BareNamefilter
  NewBareNamefilter :: "BareNamefilter \<Rightarrow> INumber \<Rightarrow> error + BareNamefilter"
  AddKey :: "BareNamefilter \<Rightarrow> Key \<Rightarrow> error + KeyedNamefilter"
  ToName :: "KeyedNamefilter \<Rightarrow> error + Name"
  base64_URLEncoding :: "bytes \<Rightarrow> string"
  cbor_Marshal :: "'v option \<Rightarrow> error + bytes"
  cbor_Unmarshal :: "bytes \<Rightarrow> error + 'v option"
  LatestVersion :: string
  ModeDefault :: "32 word"
  NodeType_zero :: NodeType
  maxAlloc :: nat

definition nil_dereference :: error where
  "nil_dereference = Panic ''invalid memory address or nil pointer dereference''"

text \<open>\<open>func (k Key) Encode() string\<close> and \<open>func (n INumber) Encode() string\<close>\<close>

definition Key_Encode :: "('r, 'v) prims \<Rightarrow> Key \<Rightarrow> string" where
  "Key_Encode P k = base64_URLEncoding P k"

definition INumber_Encode :: "('r, 'v) prims \<Rightarrow> INumber \<Rightarrow> string" where
  "INumber_Encode P n = base64_URLEncoding P n"

subsection \<open>The store, the random source and the clock\<close>

text \<open>
  \<open>Blockstore\<close> is the block service, \<open>HAMT\<close> the external index from private names to
  header CIDs (the source stores the CID's bytes and parses them back), \<open>RatchetStore\<close>
  the ratchet store. \<open>rand_source i j\<close> is the byte at index \<open>j\<close> that the \<open>i\<close>-th
  call of \<open>rand.Read\<close> delivers and \<open>rand_pos\<close> the number of calls so far; \<open>clock\<close>
  gives the Unix time of the n-th reading of \<open>base.Timestamp()\<close>. The collaborators'
  I/O errors are not modelled: a block or an index entry is either there or not.
\<close>

record 'r Store =
  Blockstore :: "Cid \<rightharpoonup> Block"
  HAMT :: "Name \<rightharpoonup> Cid"
  RatchetStore :: "string \<rightharpoonup> 'r \<times> 'r"
  rand_source :: "nat \<Rightarrow> nat \<Rightarrow> byte"
  rand_pos :: nat
  clock :: "nat \<Rightarrow> 64 word"
  clock_pos :: nat

definition rand_Read :: "nat \<Rightarrow> 'r Store \<Rightarrow> bytes \<times> 'r Store" where
  "rand_Read n w =
     (map (rand_source w (rand_pos w)) [0 ..< n], w\<lparr>rand_pos := rand_pos w + 1\<rparr>)"

definition Timestamp_Unix :: "'r Store \<Rightarrow> 64 word \<times> 'r Store" where
  "Timestamp_Unix w = (clock w (clock_pos w), w\<lparr>clock_pos := clock_pos w + 1\<rparr>)"

definition NonceSize :: nat where
  "NonceSize = 12"

definition Blockservice_GetBlock :: "'r Store \<Rightarrow> Cid \<Rightarrow> error + Block" where
  "Blockservice_GetBlock w c =
     (case Blockstore w c of None \<Rightarrow> Inl (Err ''blockservice: key not found'') | Some blk \<Rightarrow> Inr blk)"

definition Blockstore_Put :: "Block \<Rightarrow> 'r Store \<Rightarrow> 'r Store" where
  "Blockstore_Put blk w = w\<lparr>Blockstore := (Blockstore w)(Block_Cid blk \<mapsto> blk)\<rparr>"

fun Blockstore_PutMany :: "Block list \<Rightarrow> 'r Store \<Rightarrow> 'r Store" where
  "Blockstore_PutMany [] w = w"
| "Blockstore_PutMany (blk # blks) w = Blockstore_PutMany blks (Blockstore_Put blk w)"

definition HAMT_Set :: "Name \<Rightarrow> Cid \<Rightarrow> 'r Store \<Rightarrow> 'r Store" where
  "HAMT_Set name c w = w\<lparr>HAMT := (HAMT w)(name \<mapsto> c)\<rparr>"

text \<open>
  Modelled from the spec: the ratchet store (not in this file), with
  \<open>PutRatchet(inumber, ratchet) \<rightarrow> previous_state\<close> and
  \<open>OldestKnownRatchet(inumber) \<rightarrow> Ratchet | nil\<close>. An entry holds the oldest and the
  latest ratchet put under an inumber.
\<close>

definition RatchetStore_PutRatchet :: "string \<Rightarrow> 'r \<Rightarrow> 'r Store \<Rightarrow> 'r option \<times> 'r Store" where
  "RatchetStore_PutRatchet inum r w =
     (case RatchetStore w inum of
        None \<Rightarrow> (None, w\<lparr>RatchetStore := (RatchetStore w)(inum \<mapsto> (r, r))\<rparr>)
      | Some (oldest, latest) \<Rightarrow>
          (Some latest, w\<lparr>RatchetStore := (RatchetStore w)(inum \<mapsto> (oldest, r))\<rparr>))"

definition RatchetStore_OldestKnownRatchet :: "'r Store \<Rightarrow> string \<Rightarrow> 'r option" where
  "RatchetStore_OldestKnownRatchet w inum = map_option fst (RatchetStore w inum)"

text \<open>
  Modelled from the spec: \<open>PutEncryptedFile(namedReader, key) \<rightarrow> {cid, size}\<close> of the
  store (not in this file) seals the bytes of the reader into a content block and reports
  their number; a nil reader cannot be read.
\<close>

definition Store_PutEncryptedFile ::
  "bytes option \<Rightarrow> Key \<Rightarrow> 'r Store \<Rightarrow> (error + Cid \<times> 64 word) \<times> 'r Store" where
  "Store_PutEncryptedFile content key w =
     (case content of
        None \<Rightarrow> (Inl nil_dereference, w)
      | Some data \<Rightarrow>
          let (nonce, w1) = rand_Read NonceSize w;
              blk = ContentBlock (Sealed key nonce data)
          in (Inr (Block_Cid blk, of_nat (length data)), Blockstore_Put blk w1))"

text \<open>\<open>func NewINumber() INumber\<close>: 32 random bytes.\<close>

definition NewINumber :: "'r Store \<Rightarrow> INumber \<times> 'r Store" where
  "NewINumber w = rand_Read 32 w"

text \<open>
  Modelled from the spec: \<open>NewSpiral()\<close> draws 96 random bytes as \<open>(L, M, S)\<close>.
\<close>

definition ratchet_NewSpiral :: "('r, 'v) prims \<Rightarrow> 'r Store \<Rightarrow> 'r \<times> 'r Store" where
  "ratchet_NewSpiral P w = (let (seed, w1) = rand_Read 96 w in (NewSpiral P seed, w1))"

text \<open>
  Modelled from the spec: \<open>Inc\<close> and \<open>Key\<close> read the registers of the ratchet they are
  called on; on a nil \<open>*ratchet.Spiral\<close> that is a nil pointer dereference.
\<close>

definition ratchet_Inc :: "('r, 'v) prims \<Rightarrow> 'r option \<Rightarrow> error + 'r" where
  "ratchet_Inc P rp = (case rp of None \<Rightarrow> Inl nil_dereference | Some r \<Rightarrow> Inr (Spiral_Inc P r))"

definition ratchet_Key :: "('r, 'v) prims \<Rightarrow> 'r option \<Rightarrow> error + Key" where
  "ratchet_Key P rp = (case rp of None \<Rightarrow> Inl nil_dereference | Some r \<Rightarrow> Inr (Spiral_Key P r))"

subsection \<open>Link tables\<close>

text \<open>The zero value of \<open>PrivateLink\<close>, which indexing a Go map gives for an absent key.\<close>

definition PrivateLink_zero :: PrivateLink where
  "PrivateLink_zero = PrivateLink [] 0 CidUndef False EmptyKey []"

text \<open>\<open>len(pls)\<close>\<close>

definition PrivateLinks_len :: "PrivateLinks \<Rightarrow> nat" where
  "PrivateLinks_len pls = (case pls of None \<Rightarrow> 0 | Some ls \<Rightarrow> length ls)"

text \<open>\<open>pls[name]\<close>\<close>

definition PrivateLinks_index :: "PrivateLinks \<Rightarrow> string \<Rightarrow> PrivateLink" where
  "PrivateLinks_index pls name =
     (case pls of
        None \<Rightarrow> PrivateLink_zero
      | Some ls \<Rightarrow> (case map_of ls name of None \<Rightarrow> PrivateLink_zero | Some l \<Rightarrow> l))"

text \<open>\<open>func (pls PrivateLinks) Get(name string) *PrivateLink\<close>\<close>

definition PrivateLinks_Get :: "PrivateLinks \<Rightarrow> string \<Rightarrow> PrivateLink option" where
  "PrivateLinks_Get pls name = (case pls of None \<Rightarrow> None | Some ls \<Rightarrow> map_of ls name)"

text \<open>
  \<open>func (pls PrivateLinks) Add(link PrivateLink)\<close>: \<open>pls[link.Name] = link\<close>, which
  panics on the nil map.
\<close>

definition PrivateLinks_Add :: "PrivateLinks \<Rightarrow> PrivateLink \<Rightarrow> error + PrivateLinks" where
  "PrivateLinks_Add pls link =
     (case pls of
        None \<Rightarrow> Inl (Panic ''assignment to entry in nil map'')
      | Some ls \<Rightarrow> Inr (Some (AList.update (Link_Name link) link ls)))"

text \<open>
  \<open>func (pls PrivateLinks) Remove(name string) bool\<close>: deletes the entry and reports
  whether it existed; \<open>delete\<close> on the nil map does nothing.
\<close>

definition PrivateLinks_Remove :: "PrivateLinks \<Rightarrow> string \<Rightarrow> bool \<times> PrivateLinks" where
  "PrivateLinks_Remove pls name =
     (case pls of
        None \<Rightarrow> (False, None)
      | Some ls \<Rightarrow> (map_of ls name \<noteq> None, Some (AList.delete name ls)))"

text \<open>
  \<open>func (pls PrivateLinks) SortedSlice() []PrivateLink\<close>: the names, sorted by
  \<open>sort.Strings\<close> (bytewise lexicographic order), then the link of each name. Its two
  slices have the capacity \<open>len(pls)\<close>; a table that is held in memory has few enough
  entries for these allocations, which are not modelled.
\<close>

definition PrivateLinks_names :: "PrivateLinks \<Rightarrow> string list" where
  "PrivateLinks_names pls = (case pls of None \<Rightarrow> [] | Some ls \<Rightarrow> map fst ls)"

definition PrivateLinks_SortedSlice :: "PrivateLinks \<Rightarrow> PrivateLink list" where
  "PrivateLinks_SortedSlice pls = map (PrivateLinks_index pls) (sort (PrivateLinks_names pls))"

text \<open>
  \<open>func (pls PrivateLinks) SizeSum() (total int64)\<close>: \<open>total += l.Size\<close> for every
  link, in \<open>int64\<close> arithmetic.
\<close>

definition PrivateLinks_SizeSum :: "PrivateLinks \<Rightarrow> 64 word" where
  "PrivateLinks_SizeSum pls =
     (case pls of
        None \<Rightarrow> 0
      | Some ls \<Rightarrow> foldl (\<lambda>total l. total + Link_Size (snd l)) 0 ls)"

text \<open>
  \<open>func (pls PrivateLinks) marshalEncryptedBlock(key Key) (blocks.Block, error)\<close>: the
  CBOR bytes of the table, sealed under \<open>key\<close> with a fresh random nonce, as a raw block.
\<close>

definition marshalEncryptedBlock :: "PrivateLinks \<Rightarrow> Key \<Rightarrow> 'r Store \<Rightarrow> Block \<times> 'r Store" where
  "marshalEncryptedBlock pls key w =
     (let (nonce, w1) = rand_Read NonceSize w
      in (LinksBlock (Sealed key nonce pls), w1))"

text \<open>
  \<open>func unmarshalPrivateLinksBlock(blk blocks.Block, key Key) (PrivateLinks, error)\<close>.
  The bytes of a block that is no sealed box do not open; the bytes of file content are
  taken not to decode as a link table.
\<close>

definition unmarshalPrivateLinksBlock :: "Block \<Rightarrow> Key \<Rightarrow> error + PrivateLinks" where
  "unmarshalPrivateLinksBlock blk key =
     (case blk of
        LinksBlock box \<Rightarrow> aead_Open key box
      | ContentBlock box \<Rightarrow>
          (case aead_Open key box of
             Inl e \<Rightarrow> Inl e
           | Inr plaintext \<Rightarrow> Inl (Err ''cbor: cannot unmarshal into PrivateLinks''))
      | Envelope i c m v \<Rightarrow> Inl (Err ''cipher: message authentication failed''))"

text \<open>
  Modelled from the spec: \<open>ToLink\<close> of \<open>public.PutResult\<close> (not in this file); a link
  carries the child's name, CID and size and whether it is a file.
\<close>

definition PutResult_ToLink_IsFile :: "NodeType \<Rightarrow> bool" where
  "PutResult_ToLink_IsFile nt = (nt = NTFile \<or> nt = NTDataFile)"

text \<open>\<open>func (r PutResult) ToPrivateLink(name string) PrivateLink\<close>\<close>

definition ToPrivateLink :: "PutResult \<Rightarrow> string \<Rightarrow> PrivateLink" where
  "ToPrivateLink r name =
     PrivateLink name (res_Size r) (res_Cid r) (PutResult_ToLink_IsFile (res_Type r))
       (res_Key r) (res_Pointer r)"

subsection \<open>Header blocks\<close>

text \<open>\<open>func NewHeaderInfo(nt base.NodeType, in INumber, bnf BareNamefilter) HeaderInfo\<close>\<close>

definition NewHeaderInfo ::
  "('r, 'v) prims \<Rightarrow> NodeType \<Rightarrow> INumber \<Rightarrow> BareNamefilter \<Rightarrow> 'r Store \<Rightarrow> HeaderInfo \<times> 'r Store" where
  "NewHeaderInfo P nt inum bnf w =
     (let (now, w1) = Timestamp_Unix w
      in (\<lparr> WNFS = LatestVersion P, Type = nt, Mode = ModeDefault P, Ctime = now, Mtime = now,
             Size = 0, INumber = inum, BareNamefilter = bnf, Ratchet = [] \<rparr>, w1))"

text \<open>The zero values of \<open>HeaderInfo\<close> and \<open>Header\<close>.\<close>

definition HeaderInfo_zero :: "('r, 'v) prims \<Rightarrow> HeaderInfo" where
  "HeaderInfo_zero P =
     \<lparr> WNFS = [], Type = NodeType_zero P, Mode = 0, Ctime = 0, Mtime = 0, Size = 0,
       INumber = replicate 32 0, BareNamefilter = [], Ratchet = [] \<rparr>"

definition Header_zero :: "('r, 'v) prims \<Rightarrow> 'v Header" where
  "Header_zero P = \<lparr> Info = HeaderInfo_zero P, Metadata = CidUndef, ContentID = CidUndef, Value = None \<rparr>"

text \<open>
  \<open>func (h Header) encryptHeaderBlock(key Key) (blocks.Block, error)\<close>: the info sealed
  under \<open>key\<close> with a fresh nonce, the content CID, and the metadata CID unless it is
  \<open>cid.Undef\<close>.
\<close>

definition encryptHeaderBlock :: "'v Header \<Rightarrow> Key \<Rightarrow> 'r Store \<Rightarrow> Block \<times> 'r Store" where
  "encryptHeaderBlock h key w =
     (let (nonce, w1) = rand_Read NonceSize w
      in (Envelope (Some (Sealed key nonce (Info h))) (Some (ContentID h))
            (if Metadata h \<noteq> CidUndef then Some (Metadata h) else None) None, w1))"

text \<open>
  \<open>func decodeHeaderBlock(blk blocks.Block, key Key) (h Header, err error)\<close>. The
  function has named results: on an error it returns the header as far as it was filled,
  so the model returns the header together with the error, if any. The bytes of a raw block
  are taken not to decode as a CBOR map.
\<close>

definition decodeHeaderBlock ::
  "('r, 'v) prims \<Rightarrow> Block \<Rightarrow> Key \<Rightarrow> 'v Header \<times> error option" where
  "decodeHeaderBlock P blk key =
     (let h = Header_zero P in
      case blk of
        LinksBlock box \<Rightarrow> (h, Some (Err ''cbor: cannot unmarshal into map''))
      | ContentBlock box \<Rightarrow> (h, Some (Err ''cbor: cannot unmarshal into map''))
      | Envelope info content metadata val \<Rightarrow>
          (case info of
             None \<Rightarrow> (h, Some (Err ''header is missing info field''))
           | Some encInfo \<Rightarrow>
               (case aead_Open key encInfo of
                  Inl e \<Rightarrow> (h, Some (Wrap ''decrypting info'' e))
                | Inr hi \<Rightarrow>
                    let h1 = h\<lparr>Info := hi\<rparr>;
                        h2 = (case metadata of None \<Rightarrow> h1 | Some meta \<Rightarrow> h1\<lparr>Metadata := meta\<rparr>)
                    in if Type (Info h2) = NTDataFile then
                         (case val of
                            Some encValue \<Rightarrow>
                              (case aead_Open key encValue of
                                 Inl e \<Rightarrow> (h2, Some e)
                               | Inr plaintext \<Rightarrow>
                                   (case cbor_Unmarshal P plaintext of
                                      Inl e \<Rightarrow> (h2, Some e)
                                    | Inr v \<Rightarrow> (h2\<lparr>Value := v\<rparr>, None)))
                          | None \<Rightarrow> (h2, Some (Err ''datafile header has no value field'')))
                       else
                         (case content of
                            Some c \<Rightarrow> (h2\<lparr>ContentID := c\<rparr>, None)
                          | None \<Rightarrow> (h2, Some (Err ''header has no content cid''))))))"

text \<open>\<open>func loadHeader(ctx, s Store, key Key, id cid.Cid) (h Header, err error)\<close>\<close>

definition loadHeader ::
  "('r, 'v) prims \<Rightarrow> 'r Store \<Rightarrow> Key \<Rightarrow> Cid \<Rightarrow> 'v Header \<times> error option" where
  "loadHeader P s key c =
     (case Blockservice_GetBlock s c of
        Inl e \<Rightarrow> (Header_zero P, Some (Wrap ''getting header block'' e))
      | Inr blk \<Rightarrow> decodeHeaderBlock P blk key)"

text \<open>
  \<open>func cidFromPrivateName(ctx, fs Store, pn Name) (id cid.Cid, err error)\<close>: the index
  entry of the name, or \<open>base.ErrNotFound\<close>.
\<close>

definition cidFromPrivateName :: "'r Store \<Rightarrow> Name \<Rightarrow> error + Cid" where
  "cidFromPrivateName fs pn = (case HAMT fs pn of None \<Rightarrow> Inl ErrNotFound | Some c \<Rightarrow> Inr c)"

subsection \<open>Trees: construction and loading\<close>

text \<open>
  \<open>func NewEmptyTree(fs Store, parent BareNamefilter, name string) (*Tree, error)\<close>:
  a fresh inumber, the bare name filter of the child, a fresh ratchet, a fresh header and
  an empty (non-nil) link table.
\<close>

definition NewEmptyTree ::
  "('r, 'v) prims \<Rightarrow> BareNamefilter \<Rightarrow> string \<Rightarrow> 'r Store \<Rightarrow> (error + ('r, 'v) Tree) \<times> 'r Store" where
  "NewEmptyTree P parent name w =
     (let (inum, w1) = NewINumber w in
      case NewBareNamefilter P parent inum of
        Inl e \<Rightarrow> (Inl e, w1)
      | Inr bnf \<Rightarrow>
          let (r, w2) = ratchet_NewSpiral P w1;
              (info, w3) = NewHeaderInfo P NTDir inum bnf w2
          in (Inr \<lparr> t_name = name, t_cid = CidUndef,
                     t_header = \<lparr> Info = info, Metadata = CidUndef, ContentID = CidUndef,
                                  Value = None \<rparr>,
                     t_ratchet = Some r, t_links = Some [] \<rparr>, w3))"

text \<open>
  \<open>func LoadTree(fs Store, name string, key Key, id cid.Cid) (*Tree, error)\<close>: the link
  table stays nil. The type recorded in the header is not looked at.
\<close>

definition LoadTree ::
  "('r, 'v) prims \<Rightarrow> 'r Store \<Rightarrow> string \<Rightarrow> Key \<Rightarrow> Cid \<Rightarrow> error + ('r, 'v) Tree" where
  "LoadTree P fs name key c =
     (case loadHeader P fs key c of
        (h, Some e) \<Rightarrow> Inl e
      | (h, None) \<Rightarrow>
          (case DecodeSpiral P (Ratchet (Info h)) of
             Inl e \<Rightarrow> Inl (Wrap ''decoding ratchet'' e)
           | Inr r \<Rightarrow>
               Inr \<lparr> t_name = name, t_cid = c, t_header = h\<lparr>Info := (Info h)\<lparr>Ratchet := []\<rparr>\<rparr>,
                     t_ratchet = Some r, t_links = None \<rparr>))"

text \<open>\<open>func LoadTreeFromName(ctx, fs Store, key Key, name string, pn Name) (*Tree, error)\<close>\<close>

definition LoadTreeFromName ::
  "('r, 'v) prims \<Rightarrow> 'r Store \<Rightarrow> Key \<Rightarrow> string \<Rightarrow> Name \<Rightarrow> error + ('r, 'v) Tree" where
  "LoadTreeFromName P fs key name pn =
     (case cidFromPrivateName fs pn of
        Inl e \<Rightarrow> Inl e
      | Inr c \<Rightarrow> LoadTree P fs name key c)"

text \<open>
  \<open>func LoadNode(ctx, fs Store, name string, id cid.Cid, key Key) (privateNode, error)\<close>:
  reads the header and dispatches on the type it records.
\<close>

definition LoadNode ::
  "('r, 'v) prims \<Rightarrow> 'r Store \<Rightarrow> string \<Rightarrow> Cid \<Rightarrow> Key \<Rightarrow> error + ('r, 'v) privateNode" where
  "LoadNode P fs name c key =
     (case loadHeader P fs key c of
        (h, Some e) \<Rightarrow> Inl (Wrap ''decoding s-node header'' e)
      | (h, None) \<Rightarrow>
          (case DecodeSpiral P (Ratchet (Info h)) of
             Inl e \<Rightarrow> Inl e
           | Inr r \<Rightarrow>
               let header = h\<lparr>Info := (Info h)\<lparr>Ratchet := []\<rparr>\<rparr> in
               (case Type (Info header) of
                  NTFile \<Rightarrow>
                    Inr (NodeFile \<lparr> f_name = name, f_cid = c, f_header = header,
                                     f_ratchet = Some r, f_content = None \<rparr>)
                | NTDataFile \<Rightarrow>
                    Inr (NodeDataFile \<lparr> d_name = name, d_cid = c, d_ratchet = Some r,
                                         d_header = header, d_Metadata = None,
                                         d_content = Value header \<rparr>)
                | NTDir \<Rightarrow>
                    Inr (NodeTree \<lparr> t_name = name, t_cid = c, t_header = header,
                                     t_ratchet = Some r, t_links = None \<rparr>)
                | NTOther \<Rightarrow> Inl (Err ''unrecognized private node type''))))"

text \<open>\<open>func (pt *Tree) Key() Key { return pt.ratchet.Key() }\<close>\<close>

definition Tree_Key :: "('r, 'v) prims \<Rightarrow> ('r, 'v) Tree \<Rightarrow> error + Key" where
  "Tree_Key P pt = ratchet_Key P (t_ratchet pt)"

text \<open>
  The body shared by the three \<open>PrivateName\<close> methods:
  \<open>AddKey(header.Info.BareNamefilter, Key(ratchet.Key()))\<close>, then \<open>ToName\<close>.
\<close>

definition privateNameOf ::
  "('r, 'v) prims \<Rightarrow> BareNamefilter \<Rightarrow> 'r option \<Rightarrow> error + Name" where
  "privateNameOf P bnf rp =
     (case ratchet_Key P rp of
        Inl e \<Rightarrow> Inl e
      | Inr key \<Rightarrow>
          (case AddKey P bnf key of
             Inl e \<Rightarrow> Inl e
           | Inr knf \<Rightarrow> ToName P knf))"

text \<open>\<open>func (pt *Tree) PrivateName() (Name, error)\<close>\<close>

definition Tree_PrivateName :: "('r, 'v) prims \<Rightarrow> ('r, 'v) Tree \<Rightarrow> error + Name" where
  "Tree_PrivateName P pt = privateNameOf P (BareNamefilter (Info (t_header pt))) (t_ratchet pt)"

text \<open>
  \<open>func (pt *Tree) ensureLinks(ctx context.Context) error\<close>: loads the link table from
  the content block when it is nil.
\<close>

definition ensureLinks ::
  "('r, 'v) prims \<Rightarrow> ('r, 'v) Tree \<Rightarrow> 'r Store \<Rightarrow> error + ('r, 'v) Tree" where
  "ensureLinks P pt fs =
     (if t_links pt = None then
        (case Blockservice_GetBlock fs (ContentID (t_header pt)) of
           Inl e \<Rightarrow> Inl e
         | Inr blk \<Rightarrow>
             (case Tree_Key P pt of
                Inl e \<Rightarrow> Inl e
              | Inr key \<Rightarrow>
                  (case unmarshalPrivateLinksBlock blk key of
                     Inl e \<Rightarrow> Inl e
                   | Inr links \<Rightarrow> Inr (pt\<lparr>t_links := links\<rparr>))))
      else Inr pt)"

subsection \<open>ReadDir\<close>

text \<open>\<open>base.NewFSDirEntry(link.Name, link.IsFile)\<close>\<close>

record DirEntry =
  entry_Name :: string
  entry_IsFile :: bool

definition NewFSDirEntry :: "string \<Rightarrow> bool \<Rightarrow> DirEntry" where
  "NewFSDirEntry name isFile = \<lparr> entry_Name = name, entry_IsFile = isFile \<rparr>"

text \<open>
  The loop of \<open>ReadDir\<close>: \<open>for i, link := range sorted { entries = append(entries, ...);
  if i == n { break } }\<close>, with \<open>i\<close> the index of \<open>link\<close>.
\<close>

fun ReadDir_loop :: "int \<Rightarrow> int \<Rightarrow> PrivateLink list \<Rightarrow> DirEntry list \<Rightarrow> DirEntry list" where
  "ReadDir_loop n i [] entries = entries"
| "ReadDir_loop n i (link # rest) entries =
     (let entries1 = entries @ [NewFSDirEntry (Link_Name link) (Link_IsFile link)]
      in if i = n then entries1 else ReadDir_loop n (i + 1) rest entries1)"

text \<open>
  \<open>make([]T, len, cap)\<close> with a capacity that is not a constant is the runtime's
  \<open>makeslice\<close>: it panics when the capacity times the size of an element exceeds
  \<open>maxAlloc\<close>, when the length is negative, or when the length exceeds the capacity;
  the panic names the length when the length alone is out of range. Lengths and capacities
  are given by their integer values. An allocation within the limit is taken to succeed.
\<close>

definition makeslice :: "('r, 'v) prims \<Rightarrow> nat \<Rightarrow> int \<Rightarrow> int \<Rightarrow> error option" where
  "makeslice P elemSize len cap =
     (if int elemSize * cap > int (maxAlloc P) \<or> len < 0 \<or> len > cap then
        (if int elemSize * len > int (maxAlloc P) \<or> len < 0
         then Some (Panic ''makeslice: len out of range'')
         else Some (Panic ''makeslice: cap out of range''))
      else None)"

text \<open>
  \<open>fs.DirEntry\<close> is an interface type: a value is two machine words, 16 bytes where
  \<open>int\<close> has 64 bits.
\<close>

definition DirEntry_size :: nat where
  "DirEntry_size = 16"

text \<open>
  \<open>func (pt *Tree) ReadDir(n int) ([]fs.DirEntry, error)\<close>; the tree is returned too,
  since \<open>ensureLinks\<close> may have loaded its link table. \<open>n\<close> is a Go \<open>int\<close> of 64
  bits, read with \<open>sint\<close>; \<open>n1\<close> is the value of \<open>n\<close> after \<open>if n < 0 { n =
  len(pt.links) }\<close>. The result slice is made with capacity \<open>n\<close> before the links are
  listed: \<open>entries := make([]fs.DirEntry, 0, n)\<close>.
\<close>

definition Tree_ReadDir ::
  "('r, 'v) prims \<Rightarrow> ('r, 'v) Tree \<Rightarrow> 64 word \<Rightarrow> 'r Store
     \<Rightarrow> error + DirEntry list \<times> ('r, 'v) Tree" where
  "Tree_ReadDir P pt n fs =
     (case ensureLinks P pt fs of
        Inl e \<Rightarrow> Inl e
      | Inr pt1 \<Rightarrow>
          let n1 = (if sint n < 0 then int (PrivateLinks_len (t_links pt1)) else sint n)
          in (case makeslice P DirEntry_size 0 n1 of
                Some e \<Rightarrow> Inl e
              | None \<Rightarrow>
                  Inr (ReadDir_loop n1 0 (PrivateLinks_SortedSlice (t_links pt1)) [], pt1)))"

subsection \<open>Tree.Put and the link updates\<close>

text \<open>
  \<open>func (pt *Tree) Put() (base.PutResult, error)\<close>. The ratchet is advanced, the link
  table and the header are sealed under the new key and written with \<open>PutMany\<close>, the
  ratchet is put in the ratchet store under the encoded inumber, and the index maps the
  new private name to the header CID.
\<close>

definition Tree_Put ::
  "('r, 'v) prims \<Rightarrow> ('r, 'v) Tree \<Rightarrow> 'r Store \<Rightarrow> (error + PutResult \<times> ('r, 'v) Tree) \<times> 'r Store" where
  "Tree_Put P pt w =
     (case ratchet_Inc P (t_ratchet pt) of
        Inl e \<Rightarrow> (Inl e, w)
      | Inr r \<Rightarrow>
          let key = Spiral_Key P r;
              info = (Info (t_header pt))\<lparr>Ratchet := Spiral_Encode P r,
                                          Size := PrivateLinks_SizeSum (t_links pt)\<rparr>;
              (linksBlk, w1) = marshalEncryptedBlock (t_links pt) key w;
              header = (t_header pt)\<lparr>Info := info, ContentID := Block_Cid linksBlk\<rparr>;
              (blk, w2) = encryptHeaderBlock header key w1;
              w3 = Blockstore_PutMany [blk, linksBlk] w2;
              pt1 = pt\<lparr>t_ratchet := Some r, t_header := header, t_cid := Block_Cid blk\<rparr>
          in (case Tree_PrivateName P pt1 of
                Inl e \<Rightarrow> (Inl e, w3)
              | Inr privName \<Rightarrow>
                  let (prev, w4) = RatchetStore_PutRatchet (INumber_Encode P (INumber info)) r w3;
                      w5 = HAMT_Set privName (t_cid pt1) w4
                  in (Inr (\<lparr> res_Cid = t_cid pt1, res_Size = Size info, res_Type = Type info,
                              res_Userland = CidUndef, res_Key = key, res_Pointer = privName \<rparr>,
                           pt1), w5)))"

text \<open>\<open>func (pt *Tree) updateUserlandLink(name string, res base.PutResult)\<close>\<close>

definition updateUserlandLink ::
  "('r, 'v) Tree \<Rightarrow> string \<Rightarrow> PutResult \<Rightarrow> 'r Store \<Rightarrow> (error + ('r, 'v) Tree) \<times> 'r Store" where
  "updateUserlandLink pt name res w =
     (case PrivateLinks_Add (t_links pt) (ToPrivateLink res name) of
        Inl e \<Rightarrow> (Inl e, w)
      | Inr links \<Rightarrow>
          let (now, w1) = Timestamp_Unix w
          in (Inr (pt\<lparr>t_links := links,
                      t_header := (t_header pt)\<lparr>Info := (Info (t_header pt))\<lparr>Mtime := now\<rparr>\<rparr>\<rparr>), w1))"

text \<open>
  \<open>func (pt *Tree) removeUserlandLink(name string)\<close>: the result of \<open>Remove\<close> is
  dropped.
\<close>

definition removeUserlandLink ::
  "('r, 'v) Tree \<Rightarrow> string \<Rightarrow> 'r Store \<Rightarrow> ('r, 'v) Tree \<times> 'r Store" where
  "removeUserlandLink pt name w =
     (let (existed, links) = PrivateLinks_Remove (t_links pt) name;
          (now, w1) = Timestamp_Unix w
      in (pt\<lparr>t_links := links,
              t_header := (t_header pt)\<lparr>Info := (Info (t_header pt))\<lparr>Mtime := now\<rparr>\<rparr>\<rparr>, w1))"

text \<open>
  \<open>func (pt *Tree) getOrCreateDirectChildTree(name string) (*Tree, error)\<close>; the
  receiver is returned as well, with its link table loaded.
\<close>

definition getOrCreateDirectChildTree ::
  "('r, 'v) prims \<Rightarrow> ('r, 'v) Tree \<Rightarrow> string \<Rightarrow> 'r Store
     \<Rightarrow> (error + ('r, 'v) Tree \<times> ('r, 'v) Tree) \<times> 'r Store" where
  "getOrCreateDirectChildTree P pt name w =
     (case ensureLinks P pt w of
        Inl e \<Rightarrow> (Inl e, w)
      | Inr pt1 \<Rightarrow>
          (case PrivateLinks_Get (t_links pt1) name of
             None \<Rightarrow>
               (case NewEmptyTree P (BareNamefilter (Info (t_header pt1))) name w of
                  (Inl e, w1) \<Rightarrow> (Inl e, w1)
                | (Inr child, w1) \<Rightarrow> (Inr (child, pt1), w1))
           | Some link \<Rightarrow>
               (case LoadTree P w name (Link_Key link) (Link_Cid link) of
                  Inl e \<Rightarrow> (Inl e, w)
                | Inr child \<Rightarrow> (Inr (child, pt1), w))))"

subsection \<open>Paths\<close>

text \<open>
  Modelled from the spec: \<open>Path.Shift\<close> of package \<open>base\<close> (not in this file) splits
  a path into \<open>head, tail\<close>; the head of the empty path is the empty string, and the
  tail is nil (\<open>None\<close>) when no segment follows the head.
\<close>

fun Path_Shift :: "string list \<Rightarrow> string \<times> string list option" where
  "Path_Shift [] = ([], None)"
| "Path_Shift [x] = (x, None)"
| "Path_Shift (x # xs) = (x, Some xs)"

lemma Path_Shift_tail: "(head, Some rest) = Path_Shift path \<Longrightarrow> length rest < length path"
  by (cases path rule: Path_Shift.cases) auto

subsection \<open>Get, Rm, Mkdir\<close>

text \<open>
  \<open>func (pt *Tree) Get(path base.Path) (fs.File, error)\<close>. The receiver is returned
  beside the node found, with its link table loaded.
\<close>

function Tree_Get ::
  "('r, 'v) prims \<Rightarrow> ('r, 'v) Tree \<Rightarrow> string list \<Rightarrow> 'r Store
     \<Rightarrow> error + ('r, 'v) privateNode \<times> ('r, 'v) Tree" where
  "Tree_Get P pt path fs =
     (case Path_Shift path of (head, tail) \<Rightarrow>
        if head = [] then Inr (NodeTree pt, pt)
        else
          (case ensureLinks P pt fs of
             Inl e \<Rightarrow> Inl e
           | Inr pt1 \<Rightarrow>
               (case PrivateLinks_Get (t_links pt1) head of
                  None \<Rightarrow> Inl ErrNotFound
                | Some link \<Rightarrow>
                    (case tail of
                       Some rest \<Rightarrow>
                         (case LoadTree P fs head (Link_Key link) (Link_Cid link) of
                            Inl e \<Rightarrow> Inl e
                          | Inr ch \<Rightarrow>
                              (case Tree_Get P ch rest fs of
                                 Inl e \<Rightarrow> Inl e
                               | Inr (node, ch1) \<Rightarrow> Inr (node, pt1)))
                     | None \<Rightarrow>
                         (case LoadNode P fs head (Link_Cid link) (Link_Key link) of
                            Inl e \<Rightarrow> Inl e
                          | Inr node \<Rightarrow> Inr (node, pt1))))))"
  by pat_completeness auto
termination
  by (relation "measure (\<lambda>(P, pt, path, fs). length path)") (auto dest: Path_Shift_tail)

declare Tree_Get.simps [simp del]

text \<open>
  \<open>func (pt *Tree) Rm(path base.Path) (base.PutResult, error)\<close>. At the leaf the link is
  removed with \<open>removeUserlandLink\<close>; above it the child is loaded, the removal recurses
  into it and the child's new link is stored. Then the tree is put.
\<close>

function Tree_Rm ::
  "('r, 'v) prims \<Rightarrow> ('r, 'v) Tree \<Rightarrow> string list \<Rightarrow> 'r Store
     \<Rightarrow> (error + PutResult \<times> ('r, 'v) Tree) \<times> 'r Store" where
  "Tree_Rm P pt path w =
     (case Path_Shift path of (head, tail) \<Rightarrow>
        if head = [] then (Inl (Err ''invalid path: empty''), w)
        else
          (case ensureLinks P pt w of
             Inl e \<Rightarrow> (Inl e, w)
           | Inr pt1 \<Rightarrow>
               (case (case tail of
                        None \<Rightarrow>
                          (case removeUserlandLink pt1 head w of (pt2, w1) \<Rightarrow> (Inr pt2, w1))
                      | Some rest \<Rightarrow>
                          (case PrivateLinks_Get (t_links pt1) head of
                             None \<Rightarrow> (Inl ErrNotFound, w)
                           | Some link \<Rightarrow>
                               (case LoadTree P w (Link_Name link) (Link_Key link) (Link_Cid link) of
                                  Inl e \<Rightarrow> (Inl e, w)
                                | Inr child \<Rightarrow>
                                    (case Tree_Rm P child rest w of
                                       (Inl e, w1) \<Rightarrow> (Inl e, w1)
                                     | (Inr (res, child1), w1) \<Rightarrow>
                                         updateUserlandLink pt1 head res w1))))
                of
                  (Inl e, w2) \<Rightarrow> (Inl e, w2)
                | (Inr pt3, w2) \<Rightarrow> Tree_Put P pt3 w2)))"
  by pat_completeness auto
termination
  by (relation "measure (\<lambda>(P, pt, path, w). length path)") (auto dest: Path_Shift_tail)

declare Tree_Rm.simps [simp del]

text \<open>
  \<open>func (pt *Tree) Mkdir(path base.Path) (res base.PutResult, err error)\<close>. With a
  non-nil tail the source calls \<open>pt.Mkdir(tail)\<close>, on the receiver itself; \<open>childDir\<close> is
  put only at the last segment.
\<close>

function Tree_Mkdir ::
  "('r, 'v) prims \<Rightarrow> ('r, 'v) Tree \<Rightarrow> string list \<Rightarrow> 'r Store
     \<Rightarrow> (error + PutResult \<times> ('r, 'v) Tree) \<times> 'r Store" where
  "Tree_Mkdir P pt path w =
     (if length path < 1 then (Inl (Err ''invalid path: empty''), w)
      else
        (case Path_Shift path of (head, tail) \<Rightarrow>
           (case getOrCreateDirectChildTree P pt head w of
              (Inl e, w1) \<Rightarrow> (Inl e, w1)
            | (Inr (childDir, pt1), w1) \<Rightarrow>
                (case (case tail of
                         None \<Rightarrow>
                           (case Tree_Put P childDir w1 of
                              (Inl e, w2) \<Rightarrow> (Inl e, w2)
                            | (Inr (res, childDir1), w2) \<Rightarrow> (Inr (res, pt1), w2))
                       | Some rest \<Rightarrow> Tree_Mkdir P pt1 rest w1)
                 of
                   (Inl e, w2) \<Rightarrow> (Inl e, w2)
                 | (Inr (res, pt2), w2) \<Rightarrow>
                     (case updateUserlandLink pt2 head res w2 of
                        (Inl e, w3) \<Rightarrow> (Inl e, w3)
                      | (Inr pt3, w3) \<Rightarrow> Tree_Put P pt3 w3)))))"
  by pat_completeness auto
termination
  by (relation "measure (\<lambda>(P, pt, path, w). length path)") (auto dest: Path_Shift_tail)

declare Tree_Mkdir.simps [simp del]

subsection \<open>Files\<close>

text \<open>
  \<open>func NewFile(fs Store, parent BareNamefilter, f fs.File) (*File, error)\<close>; the
  name is not set.
\<close>

definition NewFile ::
  "('r, 'v) prims \<Rightarrow> BareNamefilter \<Rightarrow> bytes \<Rightarrow> 'r Store \<Rightarrow> (error + ('r, 'v) File) \<times> 'r Store" where
  "NewFile P parent f w =
     (let (inum, w1) = NewINumber w in
      case NewBareNamefilter P parent inum of
        Inl e \<Rightarrow> (Inl e, w1)
      | Inr bnf \<Rightarrow>
          let (r, w2) = ratchet_NewSpiral P w1;
              (info, w3) = NewHeaderInfo P NTFile inum bnf w2
          in (Inr \<lparr> f_name = [], f_cid = CidUndef,
                     f_header = \<lparr> Info = info, Metadata = CidUndef, ContentID = CidUndef,
                                  Value = None \<rparr>,
                     f_ratchet = Some r, f_content = Some f \<rparr>, w3))"

text \<open>\<open>func (pf *File) PrivateName() (Name, error)\<close>\<close>

definition File_PrivateName :: "('r, 'v) prims \<Rightarrow> ('r, 'v) File \<Rightarrow> error + Name" where
  "File_PrivateName P pf = privateNameOf P (BareNamefilter (Info (f_header pf))) (f_ratchet pf)"

text \<open>\<open>func (pf *File) SetContents(f fs.File)\<close>\<close>

definition File_SetContents :: "('r, 'v) File \<Rightarrow> bytes \<Rightarrow> ('r, 'v) File" where
  "File_SetContents pf f = pf\<lparr>f_content := Some f\<rparr>"

text \<open>
  \<open>func (pf *File) Put() (PutResult, error)\<close>: advances the ratchet, writes the
  encrypted content and the header, puts the ratchet in the ratchet store and sets the
  index entry of the new private name.
\<close>

definition File_Put ::
  "('r, 'v) prims \<Rightarrow> ('r, 'v) File \<Rightarrow> 'r Store \<Rightarrow> (error + PutResult \<times> ('r, 'v) File) \<times> 'r Store" where
  "File_Put P pf w =
     (case ratchet_Inc P (f_ratchet pf) of
        Inl e \<Rightarrow> (Inl e, w)
      | Inr r \<Rightarrow>
          let key = Spiral_Key P r in
          (case Store_PutEncryptedFile (f_content pf) key w of
             (Inl e, w1) \<Rightarrow> (Inl e, w1)
           | (Inr (resCid, resSize), w1) \<Rightarrow>
               let (now, w2) = Timestamp_Unix w1;
                   info = (Info (f_header pf))\<lparr>Size := resSize, Ratchet := Spiral_Encode P r,
                                               Mtime := now\<rparr>;
                   header = (f_header pf)\<lparr>ContentID := resCid, Info := info\<rparr>;
                   (blk, w3) = encryptHeaderBlock header key w2;
                   w4 = Blockstore_Put blk w3;
                   pf1 = pf\<lparr>f_ratchet := Some r, f_header := header, f_cid := Block_Cid blk\<rparr>
               in (case File_PrivateName P pf1 of
                     Inl e \<Rightarrow> (Inl e, w4)
                   | Inr privName \<Rightarrow>
                       let (prev, w5) =
                             RatchetStore_PutRatchet (INumber_Encode P (INumber info)) r w4;
                           w6 = HAMT_Set privName (f_cid pf1) w5
                       in (Inr (\<lparr> res_Cid = f_cid pf1, res_Size = resSize, res_Type = Type info,
                                   res_Userland = resCid, res_Key = key,
                                   res_Pointer = privName \<rparr>, pf1), w6))))"

subsection \<open>Data files\<close>

text \<open>
  \<open>func NewDataFile(fs Store, name string, content interface{}, parent BareNamefilter)
  (*DataFile, error)\<close>
\<close>

definition NewDataFile ::
  "('r, 'v) prims \<Rightarrow> string \<Rightarrow> 'v option \<Rightarrow> BareNamefilter \<Rightarrow> 'r Store
     \<Rightarrow> (error + ('r, 'v) DataFile) \<times> 'r Store" where
  "NewDataFile P name content parent w =
     (let (inum, w1) = NewINumber w in
      case NewBareNamefilter P parent inum of
        Inl e \<Rightarrow> (Inl e, w1)
      | Inr bnf \<Rightarrow>
          let (r, w2) = ratchet_NewSpiral P w1;
              (info, w3) = NewHeaderInfo P NTDataFile inum bnf w2
          in (Inr \<lparr> d_name = name, d_cid = CidUndef, d_ratchet = Some r,
                     d_header = \<lparr> Info = info, Metadata = CidUndef, ContentID = CidUndef,
                                  Value = None \<rparr>,
                     d_Metadata = None, d_content = content \<rparr>, w3))"

text \<open>\<open>func (df *DataFile) PrivateName() (Name, error)\<close>\<close>

definition DataFile_PrivateName :: "('r, 'v) prims \<Rightarrow> ('r, 'v) DataFile \<Rightarrow> error + Name" where
  "DataFile_PrivateName P df =
     privateNameOf P (BareNamefilter (Info (d_header df))) (d_ratchet df)"

text \<open>\<open>func (df *DataFile) SetContents(data interface{})\<close>\<close>

definition DataFile_SetContents :: "('r, 'v) DataFile \<Rightarrow> 'v option \<Rightarrow> ('r, 'v) DataFile" where
  "DataFile_SetContents df data = df\<lparr>d_content := data\<rparr>"

text \<open>
  \<open>func (df *DataFile) encodeBlock(key Key) (blocks.Block, error)\<close>: the header info
  and the CBOR bytes of the content, each sealed under \<open>key\<close> with its own random nonce,
  in the entries \<open>info\<close> and \<open>value\<close>, beside \<open>metadata\<close>.
\<close>

definition DataFile_encodeBlock ::
  "('r, 'v) prims \<Rightarrow> ('r, 'v) DataFile \<Rightarrow> Key \<Rightarrow> 'r Store \<Rightarrow> (error + Block) \<times> 'r Store" where
  "DataFile_encodeBlock P df key w =
     (let (nonce, w1) = rand_Read NonceSize w;
          infoCipher = Sealed key nonce (Info (d_header df))
      in case cbor_Marshal P (d_content df) of
           Inl e \<Rightarrow> (Inl e, w1)
         | Inr data \<Rightarrow>
             let (nonce2, w2) = rand_Read NonceSize w1;
                 contentCipher = Sealed key nonce2 data
             in (Inr (Envelope (Some infoCipher) None (d_Metadata df) (Some contentCipher)), w2))"

text \<open>
  \<open>func (df *DataFile) Put() (result PutResult, err error)\<close>. The source sets the
  ratchet string and the modification time of the header, leaves the size as it is
  (\<open>// df.header.Info.Size = ???\<close>), writes the block to the block store, and returns.
  It calls neither \<open>PutRatchet\<close> nor the index.
\<close>

definition DataFile_Put ::
  "('r, 'v) prims \<Rightarrow> ('r, 'v) DataFile \<Rightarrow> 'r Store
     \<Rightarrow> (error + PutResult \<times> ('r, 'v) DataFile) \<times> 'r Store" where
  "DataFile_Put P df w =
     (case ratchet_Inc P (d_ratchet df) of
        Inl e \<Rightarrow> (Inl e, w)
      | Inr r \<Rightarrow>
          let key = Spiral_Key P r;
              (now, w1) = Timestamp_Unix w;
              info = (Info (d_header df))\<lparr>Ratchet := Spiral_Encode P r, Mtime := now\<rparr>;
              df1 = df\<lparr>d_ratchet := Some r, d_header := (d_header df)\<lparr>Info := info\<rparr>\<rparr>
          in (case DataFile_encodeBlock P df1 key w1 of
                (Inl e, w2) \<Rightarrow> (Inl e, w2)
              | (Inr blk, w2) \<Rightarrow>
                  let df2 = df1\<lparr>d_cid := Block_Cid blk\<rparr> in
                  (case DataFile_PrivateName P df2 of
                     Inl e \<Rightarrow> (Inl e, w2)
                   | Inr name \<Rightarrow>
                       let w3 = Blockstore_Put blk w2
                       in (Inr (\<lparr> res_Cid = d_cid df2, res_Size = Size info,
                                   res_Type = Type info, res_Userland = d_cid df2,
                                   res_Key = Spiral_Key P r, res_Pointer = name \<rparr>, df2), w3))))"

subsection \<open>Update\<close>

text \<open>\<open>func (pt *Tree) Update(file fs.File) (PutResult, error)\<close>\<close>

definition Tree_Update ::
  "('r, 'v) prims \<Rightarrow> ('r, 'v) Tree \<Rightarrow> 'v fsFile \<Rightarrow> 'r Store
     \<Rightarrow> (error + PutResult \<times> ('r, 'v) privateNode) \<times> 'r Store" where
  "Tree_Update P pt file w = (Inl (Err ''directories don't support updating''), w)"

text \<open>
  \<open>func (pf *File) Update(change fs.File) (result PutResult, err error)\<close>. When the
  change is a linked data file, a \<open>DataFile\<close> is built from the file's store, CID, name
  and header (a copy of the info, the metadata); the literal sets no ratchet, so the
  field is nil. The node that is put is returned beside the result.
\<close>

definition File_Update ::
  "('r, 'v) prims \<Rightarrow> ('r, 'v) File \<Rightarrow> 'v fsFile \<Rightarrow> 'r Store
     \<Rightarrow> (error + PutResult \<times> ('r, 'v) privateNode) \<times> 'r Store" where
  "File_Update P pf change w =
     (case change of
        LinkedDataFile dat \<Rightarrow>
          (case dat of
             Inl e \<Rightarrow> (Inl e, w)
           | Inr v \<Rightarrow>
               let df = \<lparr> d_name = f_name pf, d_cid = f_cid pf, d_ratchet = None,
                          d_header = \<lparr> Info = HeaderInfo_Copy (Info (f_header pf)),
                                       Metadata = Metadata (f_header pf),
                                       ContentID = CidUndef, Value = None \<rparr>,
                          d_Metadata = None, d_content = None \<rparr>;
                   df1 = DataFile_SetContents df v;
                   df2 = df1\<lparr>d_header := (d_header df1)\<lparr>Info := (Info (d_header df1))\<lparr>Type := NTDataFile\<rparr>\<rparr>\<rparr>
               in (case DataFile_Put P df2 w of
                     (Inl e, w1) \<Rightarrow> (Inl e, w1)
                   | (Inr (res, df3), w1) \<Rightarrow> (Inr (res, NodeDataFile df3), w1)))
      | PlainFile f \<Rightarrow>
          (case File_Put P (File_SetContents pf f) w of
             (Inl e, w1) \<Rightarrow> (Inl e, w1)
           | (Inr (res, pf1), w1) \<Rightarrow> (Inr (res, NodeFile pf1), w1)))"

text \<open>
  \<open>func (df *DataFile) Update(change fs.File) (result PutResult, err error)\<close>. When the
  change is a plain file, a \<open>File\<close> is built from the data file's store, name, CID and
  header and the new content; here too the literal sets no ratchet.
\<close>

definition DataFile_Update ::
  "('r, 'v) prims \<Rightarrow> ('r, 'v) DataFile \<Rightarrow> 'v fsFile \<Rightarrow> 'r Store
     \<Rightarrow> (error + PutResult \<times> ('r, 'v) privateNode) \<times> 'r Store" where
  "DataFile_Update P df change w =
     (case change of
        LinkedDataFile dat \<Rightarrow>
          (case dat of
             Inl e \<Rightarrow> (Inl e, w)
           | Inr v \<Rightarrow>
               (case DataFile_Put P (DataFile_SetContents df v) w of
                  (Inl e, w1) \<Rightarrow> (Inl e, w1)
                | (Inr (res, df1), w1) \<Rightarrow> (Inr (res, NodeDataFile df1), w1)))
      | PlainFile c \<Rightarrow>
          let f = \<lparr> f_name = d_name df, f_cid = d_cid df,
                    f_header = \<lparr> Info = HeaderInfo_Copy (Info (d_header df)),
                                 Metadata = Metadata (d_header df),
                                 ContentID = CidUndef, Value = None \<rparr>,
                    f_ratchet = None, f_content = Some c \<rparr>;
              f1 = f\<lparr>f_header := (f_header f)\<lparr>Info := (Info (f_header f))\<lparr>Type := NTFile\<rparr>\<rparr>\<rparr>
          in (case File_Put P f1 w of
                (Inl e, w1) \<Rightarrow> (Inl e, w1)
              | (Inr (res, f2), w1) \<Rightarrow> (Inr (res, NodeFile f2), w1)))"

text \<open>The method \<open>Update\<close> of the interface \<open>privateNode\<close>.\<close>

definition privateNode_Update ::
  "('r, 'v) prims \<Rightarrow> ('r, 'v) privateNode \<Rightarrow> 'v fsFile \<Rightarrow> 'r Store
     \<Rightarrow> (error + PutResult \<times> ('r, 'v) privateNode) \<times> 'r Store" where
  "privateNode_Update P n change w =
     (case n of
        NodeTree pt \<Rightarrow> Tree_Update P pt change w
      | NodeFile pf \<Rightarrow> File_Update P pf change w
      | NodeDataFile df \<Rightarrow> DataFile_Update P df change w)"

text \<open>The methods \<open>Put\<close>, \<open>Type\<close>, \<open>INumber\<close>, \<open>BareNamefilter\<close>, \<open>Ratchet\<close>,
  \<open>PrivateName\<close> and \<open>Size\<close> of the three node types, by node.\<close>

definition privateNode_Put ::
  "('r, 'v) prims \<Rightarrow> ('r, 'v) privateNode \<Rightarrow> 'r Store
     \<Rightarrow> (error + PutResult \<times> ('r, 'v) privateNode) \<times> 'r Store" where
  "privateNode_Put P n w =
     (case n of
        NodeTree pt \<Rightarrow>
          (case Tree_Put P pt w of
             (Inl e, w1) \<Rightarrow> (Inl e, w1)
           | (Inr (res, pt1), w1) \<Rightarrow> (Inr (res, NodeTree pt1), w1))
      | NodeFile pf \<Rightarrow>
          (case File_Put P pf w of
             (Inl e, w1) \<Rightarrow> (Inl e, w1)
           | (Inr (res, pf1), w1) \<Rightarrow> (Inr (res, NodeFile pf1), w1))
      | NodeDataFile df \<Rightarrow>
          (case DataFile_Put P df w of
             (Inl e, w1) \<Rightarrow> (Inl e, w1)
           | (Inr (res, df1), w1) \<Rightarrow> (Inr (res, NodeDataFile df1), w1)))"

definition privateNode_header :: "('r, 'v) privateNode \<Rightarrow> 'v Header" where
  "privateNode_header n =
     (case n of NodeTree pt \<Rightarrow> t_header pt | NodeFile pf \<Rightarrow> f_header pf
      | NodeDataFile df \<Rightarrow> d_header df)"

definition privateNode_Type :: "('r, 'v) privateNode \<Rightarrow> NodeType" where
  "privateNode_Type n = Type (Info (privateNode_header n))"

definition privateNode_INumber :: "('r, 'v) privateNode \<Rightarrow> INumber" where
  "privateNode_INumber n = INumber (Info (privateNode_header n))"

definition privateNode_BareNamefilter :: "('r, 'v) privateNode \<Rightarrow> BareNamefilter" where
  "privateNode_BareNamefilter n = BareNamefilter (Info (privateNode_header n))"

definition privateNode_Size :: "('r, 'v) privateNode \<Rightarrow> 64 word" where
  "privateNode_Size n = Size (Info (privateNode_header n))"

definition privateNode_Ratchet :: "('r, 'v) privateNode \<Rightarrow> 'r option" where
  "privateNode_Ratchet n =
     (case n of NodeTree pt \<Rightarrow> t_ratchet pt | NodeFile pf \<Rightarrow> f_ratchet pf
      | NodeDataFile df \<Rightarrow> d_ratchet df)"

definition privateNode_PrivateName :: "('r, 'v) prims \<Rightarrow> ('r, 'v) privateNode \<Rightarrow> error + Name" where
  "privateNode_PrivateName P n =
     privateNameOf P (privateNode_BareNamefilter n) (privateNode_Ratchet n)"

definition privateNode_Key :: "('r, 'v) prims \<Rightarrow> ('r, 'v) privateNode \<Rightarrow> error + Key" where
  "privateNode_Key P n = ratchet_Key P (privateNode_Ratchet n)"

subsection \<open>Add\<close>

text \<open>
  \<open>func (pt *Tree) createOrUpdateChildFile(ctx, name string, f fs.File)
  (base.PutResult, error)\<close>; the receiver is returned with its link table loaded.
\<close>

definition createOrUpdateChildFile ::
  "('r, 'v) prims \<Rightarrow> ('r, 'v) Tree \<Rightarrow> string \<Rightarrow> 'v fsFile \<Rightarrow> 'r Store
     \<Rightarrow> (error + PutResult \<times> ('r, 'v) Tree) \<times> 'r Store" where
  "createOrUpdateChildFile P pt name f w =
     (case ensureLinks P pt w of
        Inl e \<Rightarrow> (Inl e, w)
      | Inr pt1 \<Rightarrow>
          (case PrivateLinks_Get (t_links pt1) name of
             Some link \<Rightarrow>
               (case LoadNode P w (Link_Name link) (Link_Cid link) (Link_Key link) of
                  Inl e \<Rightarrow> (Inl e, w)
                | Inr prev \<Rightarrow>
                    (case privateNode_Update P prev f w of
                       (Inl e, w1) \<Rightarrow> (Inl e, w1)
                     | (Inr (res, n), w1) \<Rightarrow> (Inr (res, pt1), w1)))
           | None \<Rightarrow>
               (case f of
                  LinkedDataFile dat \<Rightarrow>
                    (case dat of
                       Inl e \<Rightarrow> (Inl e, w)
                     | Inr v \<Rightarrow>
                         (case NewDataFile P name v (BareNamefilter (Info (t_header pt1))) w of
                            (Inl e, w1) \<Rightarrow> (Inl e, w1)
                          | (Inr df, w1) \<Rightarrow>
                              (case DataFile_Put P df w1 of
                                 (Inl e, w2) \<Rightarrow> (Inl e, w2)
                               | (Inr (res, df1), w2) \<Rightarrow> (Inr (res, pt1), w2))))
                | PlainFile c \<Rightarrow>
                    (case NewFile P (BareNamefilter (Info (t_header pt1))) c w of
                       (Inl e, w1) \<Rightarrow> (Inl e, w1)
                     | (Inr ch, w1) \<Rightarrow>
                         (case File_Put P ch w1 of
                            (Inl e, w2) \<Rightarrow> (Inl e, w2)
                          | (Inr (res, ch1), w2) \<Rightarrow> (Inr (res, pt1), w2))))))"

text \<open>
  \<open>func (pt *Tree) Add(path base.Path, f fs.File) (res base.PutResult, err error)\<close>;
  with a non-nil tail it recurses into the child directory, \<open>childDir.Add(tail, f)\<close>.
\<close>

function Tree_Add ::
  "('r, 'v) prims \<Rightarrow> ('r, 'v) Tree \<Rightarrow> string list \<Rightarrow> 'v fsFile \<Rightarrow> 'r Store
     \<Rightarrow> (error + PutResult \<times> ('r, 'v) Tree) \<times> 'r Store" where
  "Tree_Add P pt path f w =
     (if length path = 0 then (Inl (Err ''invalid path: empty''), w)
      else
        (case ensureLinks P pt w of
           Inl e \<Rightarrow> (Inl e, w)
         | Inr pt1 \<Rightarrow>
             (case Path_Shift path of (head, tail) \<Rightarrow>
                (case (case tail of
                         None \<Rightarrow> createOrUpdateChildFile P pt1 head f w
                       | Some rest \<Rightarrow>
                           (case getOrCreateDirectChildTree P pt1 head w of
                              (Inl e, w1) \<Rightarrow> (Inl e, w1)
                            | (Inr (childDir, pt2), w1) \<Rightarrow>
                                (case Tree_Add P childDir rest f w1 of
                                   (Inl e, w2) \<Rightarrow> (Inl e, w2)
                                 | (Inr (res, childDir1), w2) \<Rightarrow> (Inr (res, pt2), w2))))
                 of
                   (Inl e, w3) \<Rightarrow> (Inl e, w3)
                 | (Inr (res, pt3), w3) \<Rightarrow>
                     (case updateUserlandLink pt3 head res w3 of
                        (Inl e, w4) \<Rightarrow> (Inl e, w4)
                      | (Inr pt4, w4) \<Rightarrow> Tree_Put P pt4 w4)))))"
  by pat_completeness auto
termination
  by (relation "measure (\<lambda>(P, pt, path, f, w). length path)") (auto dest: Path_Shift_tail)

declare Tree_Add.simps [simp del]

subsection \<open>History\<close>

text \<open>The fields of \<open>base.HistoryEntry\<close> that \<open>history\<close> fills.\<close>

record HistoryEntry =
  he_Cid :: Cid
  he_Size :: "64 word"
  he_Type :: NodeType
  he_Mtime :: "64 word"
  he_Key :: string
  he_PrivateName :: string

text \<open>
  The loop of \<open>history\<close> over the ratchets: the private name of each revision is looked
  up in the index; an error of \<open>loadHeader\<close> is logged only, and the entry is filled from
  the header as far as it was read.
\<close>

fun history_loop ::
  "('r, 'v) prims \<Rightarrow> 'r Store \<Rightarrow> BareNamefilter \<Rightarrow> 'r list \<Rightarrow> error + HistoryEntry list" where
  "history_loop P store bnf [] = Inr []"
| "history_loop P store bnf (rcht # rest) =
     (let key = Spiral_Key P rcht in
      case AddKey P bnf key of
        Inl e \<Rightarrow> Inl e
      | Inr knf \<Rightarrow>
          (case ToName P knf of
             Inl e \<Rightarrow> Inl e
           | Inr pn \<Rightarrow>
               (case cidFromPrivateName store pn of
                  Inl e \<Rightarrow> Inl e
                | Inr headerID \<Rightarrow>
                    let header = fst (loadHeader P store key headerID :: 'v Header \<times> error option);
                        entry = \<lparr> he_Cid = headerID, he_Size = Size (Info header),
                                  he_Type = Type (Info header), he_Mtime = Mtime (Info header),
                                  he_Key = Key_Encode P key, he_PrivateName = pn \<rparr>
                    in (case history_loop P store bnf rest of
                          Inl e \<Rightarrow> Inl e
                        | Inr hist \<Rightarrow> Inr (entry # hist)))))"

text \<open>
  \<open>func history(ctx, n privateNode, maxRevs int) ([]base.HistoryEntry, error)\<close>. The
  result is the pair the source returns: the slice (\<open>None\<close> when nil) and the error
  (\<open>None\<close> when nil). \<open>Stat\<close> never fails on the three node types, and \<open>NodeStore\<close>
  (another file of the package) is taken to give the store of the node.

  When the oldest known ratchet is nil the source executes \<open>return nil, err\<close>, where
  \<open>err\<close> is the error of \<open>OldestKnownRatchet\<close>, which the preceding check found nil.
\<close>

definition history ::
  "('r, 'v) prims \<Rightarrow> ('r, 'v) privateNode \<Rightarrow> int \<Rightarrow> 'r Store
     \<Rightarrow> HistoryEntry list option \<times> error option" where
  "history P n maxRevs store =
     (let bnf = privateNode_BareNamefilter n;
          err = (None :: error option)
      in case RatchetStore_OldestKnownRatchet store (INumber_Encode P (privateNode_INumber n)) of
           None \<Rightarrow> (None, err)
         | Some old \<Rightarrow>
             (case privateNode_Ratchet n of
                None \<Rightarrow> (None, Some nil_dereference)
              | Some recent \<Rightarrow>
                  (case Spiral_Previous P recent old maxRevs of
                     Inl e \<Rightarrow> (None, Some e)
                   | Inr ratchets \<Rightarrow>
                       (case history_loop P store bnf (recent # ratchets) of
                          Inl e \<Rightarrow> (None, Some e)
                        | Inr hist \<Rightarrow> (Some hist, None)))))"

text \<open>
  \<open>Tree.History\<close> and \<open>File.History\<close> call \<open>history\<close>; \<open>DataFile.History\<close>
  returns the error \<open>no history\<close>.
\<close>

definition Tree_History ::
  "('r, 'v) prims \<Rightarrow> ('r, 'v) Tree \<Rightarrow> int \<Rightarrow> 'r Store \<Rightarrow> HistoryEntry list option \<times> error option" where
  "Tree_History P pt maxRevs store = history P (NodeTree pt) maxRevs store"

definition File_History ::
  "('r, 'v) prims \<Rightarrow> ('r, 'v) File \<Rightarrow> int \<Rightarrow> 'r Store \<Rightarrow> HistoryEntry list option \<times> error option" where
  "File_History P pf maxRevs store = history P (NodeFile pf) maxRevs store"

definition DataFile_History ::
  "('r, 'v) prims \<Rightarrow> ('r, 'v) DataFile \<Rightarrow> int \<Rightarrow> 'r Store \<Rightarrow> HistoryEntry list option \<times> error option" where
  "DataFile_History P df maxRevs store = (None, Some (Err ''no history''))"

definition privateNode_History ::
  "('r, 'v) prims \<Rightarrow> ('r, 'v) privateNode \<Rightarrow> int \<Rightarrow> 'r Store
     \<Rightarrow> HistoryEntry list option \<times> error option" where
  "privateNode_History P n maxRevs store =
     (case n of
        NodeTree pt \<Rightarrow> Tree_History P pt maxRevs store
      | NodeFile pf \<Rightarrow> File_History P pf maxRevs store
      | NodeDataFile df \<Rightarrow> DataFile_History P df maxRevs store)"

subsection \<open>The root\<close>

text \<open>\<open>type Root struct { *Tree; ctx context.Context }\<close>\<close>

record ('r, 'v, 'c) Root =
  root_Tree :: "('r, 'v) Tree"
  root_ctx :: 'c

text \<open>
  \<open>func NewEmptyRoot(ctx, store Store, name string, rootKey Key) (*Root, error)\<close>
\<close>

definition NewEmptyRoot ::
  "('r, 'v) prims \<Rightarrow> 'c \<Rightarrow> 'r Store \<Rightarrow> string \<Rightarrow> Key \<Rightarrow> (error + ('r, 'v, 'c) Root) \<times> 'r Store" where
  "NewEmptyRoot P ctx store name rootKey =
     (case NewEmptyTree P (IdentityBareNamefilter P) name store of
        (Inl e, w) \<Rightarrow> (Inl e, w)
      | (Inr private, w) \<Rightarrow> (Inr \<lparr> root_Tree = private, root_ctx = ctx \<rparr>, w))"

subsection \<open>The representation of link tables\<close>

text \<open>
  A Go map has one entry per key, and \<open>Add\<close> stores every link under its own name. An
  association list represents such a table when its keys are distinct and every link is
  stored under the name it carries.
\<close>

definition PrivateLinks_wf :: "PrivateLinks \<Rightarrow> bool" where
  "PrivateLinks_wf pls =
     (case pls of
        None \<Rightarrow> True
      | Some ls \<Rightarrow> distinct (map fst ls) \<and> list_all (\<lambda>(name, link). Link_Name link = name) ls)"


subsection \<open>An instance of the collaborators, for evaluation\<close>

text \<open>
  A small instance of the parameters on which the operations can be run: a ratchet is a
  counter, its key is the counter as one byte, it is encoded in unary; a bare name filter
  is the list of the first bytes of the inumbers on the path, a keyed one appends the key,
  and a name spells the filter in digits. Structured values are numbers, encoded in two
  bytes.
\<close>

definition example_char :: "byte \<Rightarrow> char" where
  "example_char b =
     (if b = 0 then CHR ''0'' else if b = 1 then CHR ''1'' else if b = 2 then CHR ''2''
      else if b = 3 then CHR ''3'' else if b = 4 then CHR ''4'' else if b = 5 then CHR ''5''
      else if b = 6 then CHR ''6'' else if b = 7 then CHR ''7'' else if b = 8 then CHR ''8''
      else if b = 9 then CHR ''9'' else CHR ''x'')"

definition example_prims :: "(nat, nat) prims" where
  "example_prims =
     \<lparr> NewSpiral = (\<lambda>seed. unat (last (0 # seed))),
       Spiral_Inc = Suc,
       Spiral_Key = (\<lambda>r. [of_nat r]),
       Spiral_Encode = (\<lambda>r. replicate r CHR ''i''),
       DecodeSpiral = (\<lambda>s. Inr (length s)),
       Spiral_Previous = (\<lambda>recent old maxRevs. Inr []),
       IdentityBareNamefilter = [],
       NewBareNamefilter = (\<lambda>parent inum. Inr (parent @ take 1 inum)),
       AddKey = (\<lambda>bnf key. Inr (bnf @ key)),
       ToName = (\<lambda>knf. Inr (map example_char knf)),
       base64_URLEncoding = (\<lambda>bs. map example_char (take 1 bs)),
       cbor_Marshal = (\<lambda>v. case v of None \<Rightarrow> Inr [246] | Some n \<Rightarrow> Inr [24, of_nat n]),
       cbor_Unmarshal = (\<lambda>bs. case bs of [a, b] \<Rightarrow> Inr (Some (unat b)) | _ \<Rightarrow> Inr None),
       LatestVersion = ''2.0.0'',
       ModeDefault = 420,
       NodeType_zero = NTFile,
       maxAlloc = 281474976710656 \<rparr>"

text \<open>
  An empty store; the \<open>i\<close>-th call of the random source delivers bytes of value \<open>i\<close>,
  the clock starts at 1600000000 and advances by one second at each reading.
\<close>

definition example_store :: "nat Store" where
  "example_store =
     \<lparr> Blockstore = Map.empty, HAMT = Map.empty, RatchetStore = Map.empty,
       rand_source = (\<lambda>i j. of_nat i), rand_pos = 0,
       clock = (\<lambda>n. 1600000000 + of_nat n), clock_pos = 0 \<rparr>"

text \<open>A directory with two links, for evaluation.\<close>

definition example_dir :: "(nat, nat) Tree" where
  "example_dir =
     \<lparr> t_name = ''docs'', t_cid = CidUndef,
       t_header = \<lparr> Info = \<lparr> WNFS = ''2.0.0'', Type = NTDir, Mode = 420, Ctime = 1600000000,
                               Mtime = 1600000000, Size = 0, INumber = replicate 32 7,
                               BareNamefilter = [7], Ratchet = [] \<rparr>,
                    Metadata = CidUndef, ContentID = CidUndef, Value = None \<rparr>,
       t_ratchet = Some 3,
       t_links = Some [(''b.txt'', PrivateLink ''b.txt'' 5 CidUndef True [1] ''p1''),
                       (''a.txt'', PrivateLink ''a.txt'' 3 CidUndef True [2] ''p2'')] \<rparr>"



section \<open>Properties\<close>

subsection \<open>Link tables and the loop of ReadDir\<close>


lemma makeslice_DirEntry:
  assumes "0 \<le> c"
  shows "makeslice P DirEntry_size 0 c =
           (if int DirEntry_size * c > int (maxAlloc P)
            then Some (Panic ''makeslice: cap out of range'') else None)"
  using assms by (simp add: makeslice_def)








lemma Tree_ReadDir_panic:
  assumes "ensureLinks P pt fs = Inr pt1"
    and "int DirEntry_size *
           (if sint n < 0 then int (PrivateLinks_len (t_links pt1)) else sint n) > int (maxAlloc P)"
  shows "Tree_ReadDir P pt n fs = Inl (Panic ''makeslice: cap out of range'')"
proof -
  let ?c = "if sint n < 0 then int (PrivateLinks_len (t_links pt1)) else sint n"
  have c: "0 \<le> ?c" by simp
  have "makeslice P DirEntry_size 0 ?c = Some (Panic ''makeslice: cap out of range'')"
    using assms(2) makeslice_DirEntry [OF c, of P] by simp
  then show ?thesis using assms(1) by (simp add: Tree_ReadDir_def Let_def)
qed

text \<open>A link table sealed by \<open>marshalEncryptedBlock\<close> is read back unchanged.\<close>

lemma unmarshal_marshal:
  "unmarshalPrivateLinksBlock (fst (marshalEncryptedBlock pls key w)) key = Inr pls"
  by (simp add: marshalEncryptedBlock_def unmarshalPrivateLinksBlock_def rand_Read_def)

text \<open>\<open>Add\<close> and \<open>Remove\<close> keep a link table well formed.\<close>

lemma PrivateLinks_Add_wf:
  assumes "PrivateLinks_wf pls" and "PrivateLinks_Add pls link = Inr pls1"
  shows "PrivateLinks_wf pls1"
proof (cases pls)
  case None
  with assms show ?thesis by (simp add: PrivateLinks_Add_def)
next
  case (Some ls)
  have "list_all (\<lambda>(name, l). Link_Name l = name) (AList.update k v ls)"
    if "list_all (\<lambda>(name, l). Link_Name l = name) ls" and "Link_Name v = k" for k v ls
    using that by (induction ls) (auto)
  with assms Some show ?thesis
    by (auto simp: PrivateLinks_Add_def PrivateLinks_wf_def distinct_update)
qed

lemma PrivateLinks_Remove_wf:
  assumes "PrivateLinks_wf pls"
  shows "PrivateLinks_wf (snd (PrivateLinks_Remove pls name))"
proof (cases pls)
  case None
  then show ?thesis by (simp add: PrivateLinks_Remove_def PrivateLinks_wf_def)
next
  case (Some ls)
  have "list_all (\<lambda>(name, l). Link_Name l = name) (AList.delete k ls)"
    if "list_all (\<lambda>(name, l). Link_Name l = name) ls" for k ls
    using that by (induction ls) (auto)
  with assms Some show ?thesis
    by (auto simp: PrivateLinks_Remove_def PrivateLinks_wf_def distinct_delete)
qed

subsection \<open>Sums of sizes as integers\<close>







subsection \<open>What a successful Put leaves behind\<close>

lemma Tree_Put_fields:
  assumes "Tree_Put P pt w = (Inr (res, pt1), w1)"
  shows "t_links pt1 = t_links pt"
    and "Size (Info (t_header pt1)) = PrivateLinks_SizeSum (t_links pt)"
    and "res_Size res = Size (Info (t_header pt1))"
    and "res_Cid res = t_cid pt1"
    and "Tree_PrivateName P pt1 = Inr (res_Pointer res)"
    and "Tree_Key P pt1 = Inr (res_Key res)"
    and "HAMT w1 (res_Pointer res) = Some (t_cid pt1)"
    and "\<exists>r. t_ratchet pt = Some r \<and> t_ratchet pt1 = Some (Spiral_Inc P r) \<and>
           map_option snd (RatchetStore w1 (INumber_Encode P (Tree_INumber pt1))) = Some (Spiral_Inc P r)"
    and "\<exists>nonce. ContentID (t_header pt1) = CidOf (LinksBlock (Sealed (res_Key res) nonce (t_links pt))) \<and>
           Blockstore w1 (ContentID (t_header pt1)) = Some (LinksBlock (Sealed (res_Key res) nonce (t_links pt)))"
  using assms
  by (auto simp: Tree_Put_def Let_def ratchet_Inc_def marshalEncryptedBlock_def encryptHeaderBlock_def
      Blockstore_Put_def Block_Cid_def Tree_PrivateName_def RatchetStore_PutRatchet_def HAMT_Set_def
      Tree_Key_def ratchet_Key_def privateNameOf_def Tree_INumber_def
      split: sum.splits prod.splits option.splits)

lemma Tree_Put_header_block:
  assumes "Tree_Put P pt w = (Inr (res, pt1), w1)"
  shows "\<exists>nonce. Blockstore w1 (t_cid pt1) =
           Some (Envelope (Some (Sealed (res_Key res) nonce (Info (t_header pt1))))
                   (Some (ContentID (t_header pt1)))
                   (if Metadata (t_header pt1) \<noteq> CidUndef then Some (Metadata (t_header pt1)) else None)
                   None)"
  using assms
  by (auto simp: Tree_Put_def Let_def ratchet_Inc_def marshalEncryptedBlock_def encryptHeaderBlock_def
      Blockstore_Put_def Block_Cid_def RatchetStore_PutRatchet_def HAMT_Set_def
      split: sum.splits prod.splits option.splits)




text \<open>
  After \<open>Tree.Put\<close> and \<open>File.Put\<close> the index maps the node's private name to its header
  CID, and the header block under that CID opens with the node's key.
\<close>

lemma Tree_Put_index:
  assumes "Tree_Put P pt w = (Inr (res, pt1), w1)"
    and "Type (Info (t_header pt)) \<noteq> NTDataFile"
  shows "\<exists>name key. Tree_PrivateName P pt1 = Inr name \<and> Tree_Key P pt1 = Inr key \<and>
           cidFromPrivateName w1 name = Inr (t_cid pt1) \<and>
           snd (loadHeader P w1 key (t_cid pt1) :: 'b Header \<times> error option) = None \<and>
           Info (fst (loadHeader P w1 key (t_cid pt1) :: 'b Header \<times> error option)) =
             Info (t_header pt1)"
proof -
  obtain nonce where b: "Blockstore w1 (t_cid pt1) =
      Some (Envelope (Some (Sealed (res_Key res) nonce (Info (t_header pt1))))
              (Some (ContentID (t_header pt1)))
              (if Metadata (t_header pt1) \<noteq> CidUndef then Some (Metadata (t_header pt1)) else None)
              None)"
    using Tree_Put_header_block [OF assms(1)] by blast
  have t: "Type (Info (t_header pt1)) \<noteq> NTDataFile"
    using assms by (auto simp: Tree_Put_def Let_def split: sum.splits prod.splits)
  have "snd (loadHeader P w1 (res_Key res) (t_cid pt1) :: 'b Header \<times> error option) = None \<and>
        Info (fst (loadHeader P w1 (res_Key res) (t_cid pt1) :: 'b Header \<times> error option)) =
          Info (t_header pt1)"
    using b t by (simp add: loadHeader_def Blockservice_GetBlock_def decodeHeaderBlock_def Let_def)
  then show ?thesis
    using Tree_Put_fields(5,6,7) [OF assms(1)] by (simp add: cidFromPrivateName_def)
qed

lemma File_Put_fields:
  assumes "File_Put P pf w = (Inr (res, pf1), w1)"
  shows "File_PrivateName P pf1 = Inr (res_Pointer res)"
    and "ratchet_Key P (f_ratchet pf1) = Inr (res_Key res)"
    and "HAMT w1 (res_Pointer res) = Some (f_cid pf1)"
    and "res_Cid res = f_cid pf1"
    and "map_option snd (RatchetStore w1 (INumber_Encode P (File_INumber pf1))) = f_ratchet pf1"
    and "Type (Info (f_header pf1)) = Type (Info (f_header pf))"
    and "\<exists>nonce. Blockstore w1 (f_cid pf1) =
           Some (Envelope (Some (Sealed (res_Key res) nonce (Info (f_header pf1))))
                   (Some (ContentID (f_header pf1)))
                   (if Metadata (f_header pf1) \<noteq> CidUndef then Some (Metadata (f_header pf1)) else None)
                   None)"
  using assms
  by (auto simp: File_Put_def Let_def ratchet_Inc_def encryptHeaderBlock_def Store_PutEncryptedFile_def
      Blockstore_Put_def Block_Cid_def File_PrivateName_def RatchetStore_PutRatchet_def HAMT_Set_def
      ratchet_Key_def privateNameOf_def File_INumber_def
      split: sum.splits prod.splits option.splits)

lemma File_Put_index:
  assumes "File_Put P pf w = (Inr (res, pf1), w1)"
    and "Type (Info (f_header pf)) \<noteq> NTDataFile"
  shows "\<exists>name key. File_PrivateName P pf1 = Inr name \<and> ratchet_Key P (f_ratchet pf1) = Inr key \<and>
           cidFromPrivateName w1 name = Inr (f_cid pf1) \<and>
           snd (loadHeader P w1 key (f_cid pf1) :: 'b Header \<times> error option) = None \<and>
           Info (fst (loadHeader P w1 key (f_cid pf1) :: 'b Header \<times> error option)) =
             Info (f_header pf1)"
proof -
  obtain nonce where b: "Blockstore w1 (f_cid pf1) =
      Some (Envelope (Some (Sealed (res_Key res) nonce (Info (f_header pf1))))
              (Some (ContentID (f_header pf1)))
              (if Metadata (f_header pf1) \<noteq> CidUndef then Some (Metadata (f_header pf1)) else None)
              None)"
    using File_Put_fields(7) [OF assms(1)] by blast
  have t: "Type (Info (f_header pf1)) \<noteq> NTDataFile"
    using assms(2) File_Put_fields(6) [OF assms(1)] by simp
  have "snd (loadHeader P w1 (res_Key res) (f_cid pf1) :: 'b Header \<times> error option) = None \<and>
        Info (fst (loadHeader P w1 (res_Key res) (f_cid pf1) :: 'b Header \<times> error option)) =
          Info (f_header pf1)"
    using b t by (simp add: loadHeader_def Blockservice_GetBlock_def decodeHeaderBlock_def Let_def)
  then show ?thesis
    using File_Put_fields(1,2,3) [OF assms(1)] by (simp add: cidFromPrivateName_def)
qed

text \<open>\<open>DataFile.Put\<close> keeps the size, and touches neither the index nor the ratchet store.\<close>

lemma DataFile_Put_Size:
  assumes "DataFile_Put P df w = (Inr (res, df1), w1)"
  shows "Size (Info (d_header df1)) = Size (Info (d_header df))"
    and "res_Size res = Size (Info (d_header df))"
    and "d_content df1 = d_content df"
  using assms
  by (auto simp: DataFile_Put_def DataFile_encodeBlock_def Let_def
      split: sum.splits prod.splits option.splits)

lemma DataFile_Put_stores:
  "HAMT (snd (DataFile_Put P df w)) = HAMT w \<and>
   RatchetStore (snd (DataFile_Put P df w)) = RatchetStore w"
  by (auto simp: DataFile_Put_def DataFile_encodeBlock_def Let_def Timestamp_Unix_def rand_Read_def
      Blockstore_Put_def split: sum.splits prod.splits option.splits)

subsection \<open>Equations per path shape\<close>

text \<open>
  The recursive operations are unfolded one path segment at a time with these equations.
  \<open>Tree_Mkdir_inner\<close> shows where \<open>Mkdir\<close> recurses: into \<open>pt1\<close>, the receiver, while
  \<open>childDir\<close> is not used.
\<close>

lemma Tree_Mkdir_last:
  "Tree_Mkdir P pt [head] w =
     (case getOrCreateDirectChildTree P pt head w of
        (Inl e, w1) \<Rightarrow> (Inl e, w1)
      | (Inr (childDir, pt1), w1) \<Rightarrow>
          (case Tree_Put P childDir w1 of
             (Inl e, w2) \<Rightarrow> (Inl e, w2)
           | (Inr (res, childDir1), w2) \<Rightarrow>
               (case updateUserlandLink pt1 head res w2 of
                  (Inl e, w3) \<Rightarrow> (Inl e, w3)
                | (Inr pt3, w3) \<Rightarrow> Tree_Put P pt3 w3)))"
  by (rule trans [OF Tree_Mkdir.simps]) (simp split: sum.splits prod.splits)

lemma Tree_Mkdir_inner:
  "Tree_Mkdir P pt (head # seg # rest) w =
     (case getOrCreateDirectChildTree P pt head w of
        (Inl e, w1) \<Rightarrow> (Inl e, w1)
      | (Inr (childDir, pt1), w1) \<Rightarrow>
          (case Tree_Mkdir P pt1 (seg # rest) w1 of
             (Inl e, w2) \<Rightarrow> (Inl e, w2)
           | (Inr (res, pt2), w2) \<Rightarrow>
               (case updateUserlandLink pt2 head res w2 of
                  (Inl e, w3) \<Rightarrow> (Inl e, w3)
                | (Inr pt3, w3) \<Rightarrow> Tree_Put P pt3 w3)))"
  by (rule trans [OF Tree_Mkdir.simps]) (simp split: sum.splits prod.splits)

lemma Tree_Get_last:
  "Tree_Get P pt [head] fs =
     (if head = [] then Inr (NodeTree pt, pt)
      else
        (case ensureLinks P pt fs of
           Inl e \<Rightarrow> Inl e
         | Inr pt1 \<Rightarrow>
             (case PrivateLinks_Get (t_links pt1) head of
                None \<Rightarrow> Inl ErrNotFound
              | Some link \<Rightarrow>
                  (case LoadNode P fs head (Link_Cid link) (Link_Key link) of
                     Inl e \<Rightarrow> Inl e
                   | Inr node \<Rightarrow> Inr (node, pt1)))))"
  by (rule trans [OF Tree_Get.simps]) (simp split: sum.splits option.splits)

lemma Tree_Get_inner:
  "Tree_Get P pt (head # seg # rest) fs =
     (if head = [] then Inr (NodeTree pt, pt)
      else
        (case ensureLinks P pt fs of
           Inl e \<Rightarrow> Inl e
         | Inr pt1 \<Rightarrow>
             (case PrivateLinks_Get (t_links pt1) head of
                None \<Rightarrow> Inl ErrNotFound
              | Some link \<Rightarrow>
                  (case LoadTree P fs head (Link_Key link) (Link_Cid link) of
                     Inl e \<Rightarrow> Inl e
                   | Inr ch \<Rightarrow>
                       (case Tree_Get P ch (seg # rest) fs of
                          Inl e \<Rightarrow> Inl e
                        | Inr (node, ch1) \<Rightarrow> Inr (node, pt1))))))"
  by (rule trans [OF Tree_Get.simps]) (simp split: sum.splits option.splits)

lemma Tree_Add_last:
  "Tree_Add P pt [head] f w =
     (case ensureLinks P pt w of
        Inl e \<Rightarrow> (Inl e, w)
      | Inr pt1 \<Rightarrow>
          (case createOrUpdateChildFile P pt1 head f w of
             (Inl e, w3) \<Rightarrow> (Inl e, w3)
           | (Inr (res, pt3), w3) \<Rightarrow>
               (case updateUserlandLink pt3 head res w3 of
                  (Inl e, w4) \<Rightarrow> (Inl e, w4)
                | (Inr pt4, w4) \<Rightarrow> Tree_Put P pt4 w4)))"
  by (rule trans [OF Tree_Add.simps]) (simp split: sum.splits prod.splits)

lemma Tree_Add_inner:
  "Tree_Add P pt (head # seg # rest) f w =
     (case ensureLinks P pt w of
        Inl e \<Rightarrow> (Inl e, w)
      | Inr pt1 \<Rightarrow>
          (case getOrCreateDirectChildTree P pt1 head w of
             (Inl e, w1) \<Rightarrow> (Inl e, w1)
           | (Inr (childDir, pt2), w1) \<Rightarrow>
               (case Tree_Add P childDir (seg # rest) f w1 of
                  (Inl e, w2) \<Rightarrow> (Inl e, w2)
                | (Inr (res, childDir1), w2) \<Rightarrow>
                    (case updateUserlandLink pt2 head res w2 of
                       (Inl e, w4) \<Rightarrow> (Inl e, w4)
                     | (Inr pt4, w4) \<Rightarrow> Tree_Put P pt4 w4))))"
  by (rule trans [OF Tree_Add.simps]) (simp split: sum.splits prod.splits)

lemma Tree_Rm_single:
  "Tree_Rm P pt [name] w =
     (if name = [] then (Inl (Err ''invalid path: empty''), w)
      else
        (case ensureLinks P pt w of
           Inl e \<Rightarrow> (Inl e, w)
         | Inr pt1 \<Rightarrow> (case removeUserlandLink pt1 name w of (pt2, w1) \<Rightarrow> Tree_Put P pt2 w1)))"
  by (subst Tree_Rm.simps) (simp split: sum.splits prod.splits)

text \<open>
  With a loaded link table that has no link of the given name, \<open>Rm([name])\<close> is
  \<open>Put\<close> on the tree with a new modification time and the same link table.
\<close>

lemma removeUserlandLink_absent:
  assumes "PrivateLinks_Get (t_links pt) name = None"
  shows "t_links (fst (removeUserlandLink pt name w)) = t_links pt"
proof (cases "t_links pt")
  case None
  then show ?thesis
    by (simp add: removeUserlandLink_def PrivateLinks_Remove_def Timestamp_Unix_def)
next
  case (Some ls)
  with assms have "map_of ls name = None" by (simp add: PrivateLinks_Get_def)
  then have "AList.delete name ls = ls"
    by (simp add: delete_id map_of_eq_None_iff)
  with Some show ?thesis
    by (simp add: removeUserlandLink_def PrivateLinks_Remove_def Timestamp_Unix_def)
qed

lemma Tree_Rm_absent_link:
  assumes "name \<noteq> []" and "t_links pt \<noteq> None"
    and "PrivateLinks_Get (t_links pt) name = None"
  shows "Tree_Rm P pt [name] w =
           Tree_Put P (fst (removeUserlandLink pt name w)) (snd (removeUserlandLink pt name w))"
    and "t_links (fst (removeUserlandLink pt name w)) = t_links pt"
  using assms removeUserlandLink_absent [OF assms(3)]
  by (auto simp: Tree_Rm_single ensureLinks_def split: prod.splits)

text \<open>The early return of \<open>history\<close>, and what \<open>Tree.Mode\<close> reads.\<close>

lemma history_nil_oldest:
  assumes "RatchetStore_OldestKnownRatchet store (INumber_Encode P (privateNode_INumber n)) = None"
  shows "history P n maxRevs store = (None, None)"
  using assms by (simp add: history_def)

lemma Tree_Mode_eq: "Tree_Mode pt = ucast (Ctime (Info (t_header pt)))"
  by (simp add: Tree_Mode_def)

subsection \<open>Facts for the evaluation of the operations on the example instance\<close>

lemmas example_defs = example_prims_def example_store_def example_char_def

lemma example_prims_fields:
  "NewSpiral example_prims = (\<lambda>seed. unat (last (0 # seed)))"
  "Spiral_Inc example_prims = Suc"
  "Spiral_Key example_prims = (\<lambda>r. [of_nat r])"
  "Spiral_Encode example_prims = (\<lambda>r. replicate r CHR ''i'')"
  "DecodeSpiral example_prims = (\<lambda>s. Inr (length s))"
  "Spiral_Previous example_prims = (\<lambda>recent old maxRevs. Inr [])"
  "IdentityBareNamefilter example_prims = []"
  "NewBareNamefilter example_prims = (\<lambda>parent inum. Inr (parent @ take 1 inum))"
  "AddKey example_prims = (\<lambda>bnf key. Inr (bnf @ key))"
  "ToName example_prims = (\<lambda>knf. Inr (map example_char knf))"
  "base64_URLEncoding example_prims = (\<lambda>bs. map example_char (take 1 bs))"
  "cbor_Marshal example_prims = (\<lambda>v. case v of None \<Rightarrow> Inr [246] | Some n \<Rightarrow> Inr [24, of_nat n])"
  "LatestVersion example_prims = ''2.0.0''"
  "ModeDefault example_prims = 420"
  "NodeType_zero example_prims = NTFile"
  "maxAlloc example_prims = 281474976710656"
  by (simp_all add: example_prims_def)

lemmas example_eval = example_prims_fields example_store_def example_char_def

lemma example_rand_Read:
  assumes "rand_source w = (\<lambda>i j. of_nat i)"
  shows "rand_Read n w = (replicate n (of_nat (rand_pos w)), w\<lparr>rand_pos := rand_pos w + 1\<rparr>)"
  using assms by (simp add: rand_Read_def map_replicate_const del: upt_rec_numeral)

lemmas Put_defs = Tree_Put_def ratchet_Inc_def marshalEncryptedBlock_def encryptHeaderBlock_def
  NonceSize_def Block_Cid_def Tree_PrivateName_def privateNameOf_def ratchet_Key_def
  RatchetStore_PutRatchet_def HAMT_Set_def INumber_Encode_def Blockstore_Put_def example_rand_Read
  PrivateLinks_SizeSum_def Timestamp_Unix_def

lemmas New_defs = NewEmptyTree_def NewFile_def NewDataFile_def NewINumber_def ratchet_NewSpiral_def
  NewHeaderInfo_def

lemmas Load_defs = LoadTree_def LoadNode_def loadHeader_def decodeHeaderBlock_def
  Blockservice_GetBlock_def Header_zero_def HeaderInfo_zero_def ensureLinks_def Tree_Key_def
  unmarshalPrivateLinksBlock_def PrivateLinks_Get_def

lemmas Mkdir_defs = Tree_Mkdir_last Tree_Mkdir_inner getOrCreateDirectChildTree_def
  updateUserlandLink_def PrivateLinks_Add_def ToPrivateLink_def PutResult_ToLink_IsFile_def

lemmas File_Put_defs = File_Put_def File_PrivateName_def Store_PutEncryptedFile_def

lemmas DataFile_Put_defs = DataFile_Put_def DataFile_encodeBlock_def DataFile_PrivateName_def

subsection \<open>Scenarios on the example instance\<close>

text \<open>
  The operations run on an empty root. After \<open>Add(["a", "b.txt"], "hi")\<close> the path
  resolves to a file of size 2, \<open>a\<close> is a directory and the root lists \<open>a\<close>.
\<close>

lemma example_Add_then_Get:
  "(case NewEmptyTree example_prims [] ''root'' example_store of
      (Inl e, w) \<Rightarrow> False
    | (Inr root, w) \<Rightarrow>
        (case Tree_Add example_prims root [''a'', ''b.txt''] (PlainFile [104, 105]) w of
           (Inl e, w1) \<Rightarrow> False
         | (Inr (res, root1), w1) \<Rightarrow>
             (case Tree_Get example_prims root1 [''a'', ''b.txt''] w1 of
                Inl e \<Rightarrow> False
              | Inr (n, r) \<Rightarrow> privateNode_Type n = NTFile \<and> privateNode_Size n = 2) \<and>
             (case Tree_Get example_prims root1 [''a''] w1 of
                Inl e \<Rightarrow> False
              | Inr (n, r) \<Rightarrow> privateNode_Type n = NTDir) \<and>
             (case Tree_ReadDir example_prims root1 (- 1) w1 of
                Inl e \<Rightarrow> False
              | Inr (entries, r) \<Rightarrow> map entry_Name entries = [''a''])))"
  by (simp add: New_defs Tree_Add_last Tree_Add_inner createOrUpdateChildFile_def File_Put_defs
      Mkdir_defs Put_defs Load_defs Tree_Get_last Tree_Get_inner Tree_ReadDir_def
      makeslice_def DirEntry_size_def PrivateLinks_SortedSlice_def PrivateLinks_names_def PrivateLinks_index_def PrivateLinks_len_def
      NewFSDirEntry_def
      privateNode_Type_def privateNode_Size_def privateNode_header_def example_eval Let_def)

text \<open>
  After \<open>Mkdir(["x"])\<close>, a path of one segment, \<open>x\<close> is a directory with an inumber
  of its own.
\<close>

lemma example_Mkdir_then_Get:
  "(case NewEmptyTree example_prims [] ''root'' example_store of
      (Inl e, w) \<Rightarrow> False
    | (Inr root, w) \<Rightarrow>
        (case Tree_Mkdir example_prims root [''x''] w of
           (Inl e, w1) \<Rightarrow> False
         | (Inr (res, root1), w1) \<Rightarrow>
             (case Tree_Get example_prims root1 [''x''] w1 of
                Inl e \<Rightarrow> False
              | Inr (n, r) \<Rightarrow> privateNode_Type n = NTDir \<and> privateNode_INumber n \<noteq> Tree_INumber root1)))"
  by (simp add: New_defs Mkdir_defs Put_defs Load_defs Tree_Get_last 
      privateNode_Type_def privateNode_INumber_def Tree_INumber_def privateNode_header_def example_eval Let_def)

text \<open>
  After \<open>Add(["f"], "A")\<close> and \<open>Rm(["f"])\<close>, \<open>Get(["f"])\<close> is \<open>ErrNotFound\<close>, and the
  file still loads from its old CID and key: blocks are not deleted.
\<close>

lemma example_Add_Rm_Get:
  "(case NewEmptyTree example_prims [] ''root'' example_store of
      (Inl e, w) \<Rightarrow> False
    | (Inr root, w) \<Rightarrow>
        (case Tree_Add example_prims root [''f''] (PlainFile [65]) w of
           (Inl e, w1) \<Rightarrow> False
         | (Inr (res, root1), w1) \<Rightarrow>
             (case Tree_Rm example_prims root1 [''f''] w1 of
                (Inl e, w2) \<Rightarrow> False
              | (Inr (res2, root2), w2) \<Rightarrow>
                  Tree_Get example_prims root2 [''f''] w2 = Inl ErrNotFound \<and>
                  (case PrivateLinks_Get (t_links root1) ''f'' of
                     None \<Rightarrow> False
                   | Some link \<Rightarrow>
                       (case LoadNode example_prims w2 ''f'' (Link_Cid link) (Link_Key link) of
                          Inl e \<Rightarrow> False
                        | Inr n \<Rightarrow> privateNode_Type n = NTFile)))))"
  by (simp add: New_defs Tree_Add_last createOrUpdateChildFile_def File_Put_defs Tree_Rm_single
      removeUserlandLink_def PrivateLinks_Remove_def
      Mkdir_defs Put_defs Load_defs Tree_Get_last
      privateNode_Type_def privateNode_header_def example_eval Let_def)

section \<open>The claims\<close>

subsection \<open>C1: Put and the index\<close>

text \<open>
  C1. The claim: after a successful \<open>Put\<close> of any node, the ratchet store holds the
  node's new ratchet under its inumber and the index maps the node's new private name to its
  header CID. For a \<open>DataFile\<close> the source does neither. Here a new data file with the
  value 7 is put into the empty store: \<open>Put\<close> succeeds and the header block is in the
  block store, but the index has no entry for the private name that \<open>Put\<close> returns (the
  node's current \<open>PrivateName()\<close>), and the ratchet store has no entry for its inumber.
\<close>

theorem DataFile_Put_skips_index:
  "(case NewDataFile example_prims ''n.json'' (Some 7) [] example_store of
      (Inl e, w) \<Rightarrow> False
    | (Inr df, w) \<Rightarrow>
        (case DataFile_Put example_prims df w of
           (Inl e, w1) \<Rightarrow> False
         | (Inr (res, df1), w1) \<Rightarrow>
             DataFile_PrivateName example_prims df1 = Inr (res_Pointer res) \<and>
             HAMT w1 (res_Pointer res) = None \<and>
             RatchetStore w1 (INumber_Encode example_prims (DataFile_INumber df1)) = None \<and>
             Blockstore w1 (res_Cid res) \<noteq> None))"
  by (simp add: New_defs DataFile_Put_defs Put_defs DataFile_INumber_def example_defs Let_def)

subsection \<open>C2: History without an oldest known ratchet\<close>

text \<open>
  C2. The claim: when the ratchet store has no oldest known ratchet for the node's inumber,
  \<open>History\<close> returns the error \<open>ErrNoHistory\<close>. The source returns a nil slice and a
  nil error: here for a directory whose inumber is not in the (empty) ratchet store.
\<close>

theorem history_returns_nil_error:
  "RatchetStore_OldestKnownRatchet example_store
      (INumber_Encode example_prims (privateNode_INumber (NodeTree example_dir))) = None \<and>
   history example_prims (NodeTree example_dir) 10 example_store = (None, None) \<and>
   Tree_History example_prims example_dir 10 example_store = (None, None)"
  by (simp add: history_def Tree_History_def RatchetStore_OldestKnownRatchet_def example_store_def)

subsection \<open>C3: Mkdir\<close>

text \<open>
  On a new, empty root, \<open>Mkdir(["x", "y"])\<close> succeeds and leaves both \<open>x\<close> and \<open>y\<close>
  in the link table of the root: \<open>y\<close> is a directory directly under the root, and \<open>x\<close>
  is linked to a revision of the root itself (it has the root's inumber).
\<close>

lemma Mkdir_creates_segments_under_receiver:
  "(case NewEmptyTree example_prims [] ''root'' example_store of
      (Inl e, w) \<Rightarrow> False
    | (Inr root, w) \<Rightarrow>
        (case Tree_Mkdir example_prims root [''x'', ''y''] w of
           (Inl e, w1) \<Rightarrow> False
         | (Inr (res, root1), w1) \<Rightarrow>
             sort (PrivateLinks_names (t_links root1)) = [''x'', ''y''] \<and>
             (case Tree_Get example_prims root1 [''y''] w1 of
                Inl e \<Rightarrow> False
              | Inr (n, r) \<Rightarrow> privateNode_Type n = NTDir) \<and>
             (case Tree_Get example_prims root1 [''x''] w1 of
                Inl e \<Rightarrow> False
              | Inr (n, r) \<Rightarrow> privateNode_INumber n = Tree_INumber root1)))"
  by (simp add: New_defs Mkdir_defs Put_defs Load_defs Tree_Get_last Tree_Get_inner
      PrivateLinks_names_def privateNode_Type_def privateNode_INumber_def privateNode_header_def
      Tree_INumber_def example_eval Let_def)

text \<open>
  C3. The claim: after a successful \<open>Mkdir(p)\<close> every prefix of \<open>p\<close> resolves via
  \<open>Get\<close> to a directory, each missing segment having been created as a child of the
  directory named by the preceding segment. The source creates every segment in the
  receiver. Here the root holds a file \<open>y\<close>, written by \<open>Add(["y"], "hi")\<close>;
  \<open>Mkdir(["x", "y"])\<close> succeeds, and afterwards \<open>Get(["x", "y"])\<close> is a node of
  type file, not a directory.
\<close>

theorem Mkdir_over_sibling_file:
  "(case NewEmptyTree example_prims [] ''root'' example_store of
      (Inl e, w) \<Rightarrow> False
    | (Inr root, w) \<Rightarrow>
        (case Tree_Add example_prims root [''y''] (PlainFile [104, 105]) w of
           (Inl e, w1) \<Rightarrow> False
         | (Inr (res1, root1), w1) \<Rightarrow>
             (case Tree_Mkdir example_prims root1 [''x'', ''y''] w1 of
                (Inl e, w2) \<Rightarrow> False
              | (Inr (res2, root2), w2) \<Rightarrow>
                  (case Tree_Get example_prims root2 [''x'', ''y''] w2 of
                     Inl e \<Rightarrow> False
                   | Inr (n, r) \<Rightarrow> privateNode_Type n = NTFile))))"
  by (simp add: New_defs Tree_Add_last createOrUpdateChildFile_def File_Put_defs
      Mkdir_defs Put_defs Load_defs Tree_Get_last Tree_Get_inner
      privateNode_Type_def privateNode_header_def example_eval Let_def)

subsection \<open>C4: Rm of an absent link\<close>

text \<open>
  C4. The claim: \<open>Rm([name])\<close> returns \<open>ErrNotFound\<close> when the link table has no
  link called \<open>name\<close>. The source drops the result of \<open>Remove\<close> and puts the tree: on
  the directory \<open>example_dir\<close>, whose links are \<open>a.txt\<close> and \<open>b.txt\<close>,
  \<open>Rm(["ghost"])\<close> succeeds with the result of a \<open>Put\<close> and an unchanged link table.
\<close>

theorem Rm_absent_link_succeeds:
  "(case Tree_Rm example_prims example_dir [''ghost''] example_store of
      (Inl e, w1) \<Rightarrow> False
    | (Inr (res, pt1), w1) \<Rightarrow>
        PrivateLinks_Get (t_links example_dir) ''ghost'' = None \<and>
        res_Type res = NTDir \<and> t_links pt1 = t_links example_dir)"
  by (simp add: Tree_Rm_single ensureLinks_def removeUserlandLink_def PrivateLinks_Remove_def
      PrivateLinks_Get_def Put_defs example_defs example_dir_def Let_def)

subsection \<open>C5: Update across node types\<close>

text \<open>
  C5. The claim: \<open>File.Update\<close> with a structured-data source yields, through a
  successful \<open>Put\<close>, a \<open>DataFile\<close> with the file's inumber and bare name filter, and
  \<open>DataFile.Update\<close> with a byte stream yields a \<open>File\<close> likewise. In the source the
  node built for the other type has no ratchet, so its \<open>Put\<close> panics on
  \<open>ratchet.Inc()\<close> before anything is written: for every file, data file, value, content
  and store, the update ends in the nil pointer dereference and leaves the store as it was.
\<close>

theorem Update_transmutation_panics:
  "File_Update P pf (LinkedDataFile (Inr v)) w = (Inl nil_dereference, w) \<and>
   DataFile_Update P df (PlainFile c) w = (Inl nil_dereference, w)"
  by (simp add: File_Update_def DataFile_Update_def DataFile_Put_def File_Put_def ratchet_Inc_def
      DataFile_SetContents_def Let_def)

subsection \<open>C6: Tree.Mode\<close>

text \<open>
  C6. The claim: \<open>Tree.Mode()\<close> returns \<open>header.Info.Mode\<close>, as \<open>File.Mode()\<close> and
  \<open>DataFile.Mode()\<close> do. The source returns \<open>header.Info.Ctime\<close>, converted: a new
  empty tree has the default mode 420 (0644) and the creation time 1600000000, and its
  \<open>Mode()\<close> is 1600000000.
\<close>

theorem Tree_Mode_returns_Ctime:
  "(case NewEmptyTree example_prims [] ''docs'' example_store of
      (Inl e, w) \<Rightarrow> False
    | (Inr pt, w) \<Rightarrow>
        Mode (Info (t_header pt)) = 420 \<and> Ctime (Info (t_header pt)) = 1600000000 \<and>
        Tree_Mode pt = 1600000000)"
  by (simp add: New_defs example_rand_Read Timestamp_Unix_def Tree_Mode_def example_defs Let_def)

subsection \<open>C7: the size of a data file\<close>

text \<open>
  C7. The claim: after a successful \<open>DataFile.Put\<close> the size of the node equals the
  length of the CBOR encoding of its content. The source leaves the size as it was: a new
  data file whose content encodes in two bytes has size 0 after \<open>Put\<close>, in the header and
  in the result.
\<close>

theorem DataFile_Put_keeps_Size:
  "(case NewDataFile example_prims ''n.json'' (Some 7) [] example_store of
      (Inl e, w) \<Rightarrow> False
    | (Inr df, w) \<Rightarrow>
        (case DataFile_Put example_prims df w of
           (Inl e, w1) \<Rightarrow> False
         | (Inr (res, df1), w1) \<Rightarrow>
             cbor_Marshal example_prims (d_content df1) = Inr [24, 7] \<and>
             DataFile_Size df1 = 0 \<and> res_Size res = 0))"
  by (simp add: New_defs DataFile_Put_defs Put_defs DataFile_Size_def example_defs Let_def)

subsection \<open>C8: the size of a directory and the listing of ReadDir\<close>




subsection \<open>C9: the number of entries ReadDir returns\<close>




subsection \<open>C10: NewEmptyRoot and the root key\<close>

text \<open>
  C10. \<open>NewEmptyRoot\<close> ignores its \<open>rootKey\<close> argument: with the same context, store
  (hence the same random bytes and clock) and name, two root keys give the same root and
  the same store. The key of the new root is the key of the ratchet that \<open>NewSpiral\<close>
  builds from the 96 random bytes of the read that follows the read of the inumber.
\<close>

theorem NewEmptyRoot_ignores_rootKey:
  "NewEmptyRoot P ctx store name k1 = NewEmptyRoot P ctx store name k2 \<and>
   (\<forall>root w. NewEmptyRoot P ctx store name k1 = (Inr root, w) \<longrightarrow>
      Tree_Key P (root_Tree root) =
        Inr (Spiral_Key P (NewSpiral P (map (rand_source store (rand_pos store + 1)) [0 ..< 96]))))"
  by (auto simp: NewEmptyRoot_def NewEmptyTree_def NewINumber_def rand_Read_def
      ratchet_NewSpiral_def NewHeaderInfo_def Timestamp_Unix_def Tree_Key_def ratchet_Key_def Let_def
      split: sum.splits prod.splits)

theorem NewEmptyRoot_ignores_rootKey_witness:
  "\<exists>root w. NewEmptyRoot example_prims () example_store ''root'' (replicate 32 0) = (Inr root, w) \<and>
     NewEmptyRoot example_prims () example_store ''root'' (replicate 32 255) = (Inr root, w) \<and>
     Tree_Key example_prims (root_Tree root) = Inr [1]"
proof -
  obtain root w where
    r: "NewEmptyRoot example_prims () example_store ''root'' (replicate 32 0) = (Inr root, w)"
    by (simp add: NewEmptyRoot_def NewEmptyTree_def NewINumber_def rand_Read_def
      ratchet_NewSpiral_def NewHeaderInfo_def Timestamp_Unix_def Let_def example_defs)
  have "Spiral_Key example_prims (NewSpiral example_prims
          (map (rand_source example_store (rand_pos example_store + 1)) [0 ..< 96])) = [1]"
    by (simp add: example_defs map_replicate_const del: upt_rec_numeral)
  then show ?thesis
    using r NewEmptyRoot_ignores_rootKey [of example_prims "()" example_store "''root''"
        "replicate 32 0" "replicate 32 255"]
    by auto
qed

end
